theory Spec2Isabelle
  imports Complex_Main "HOL-Library.Sublist"
begin

section \<open>Python values, exceptions and the result file\<close>

text \<open>
  The values that flow through \<^verbatim>\<open>measure_operation\<close>: what an operation returns, the
  caller's metadata, the alerts parsed from the alerting API and the record that is dumped
  to the result file. \<open>PObject\<close> stands for any Python object the \<^verbatim>\<open>json\<close> module cannot
  encode (a set, a class instance); its argument is only a label.
\<close>

datatype pyval =
    PNone
  | PBool bool
  | PInt int
  | PFloat real
  | PStr string
  | PList "pyval list"
  | PDict "(string \<times> pyval) list"
  | PObject string

text \<open>The two assertion messages of the module.\<close>

datatype assert_msg = Request_failed | Monitors_not_replaced "string list"

text \<open>
  Exceptions are values. \<open>External\<close> is an exception raised by a collaborator (the
  operation, the cluster client); \<open>Unmodelled\<close> marks an input the embedding does not
  follow any further.
\<close>

datatype error =
    AssertionError assert_msg
  | JSONDecodeError
  | TypeError
  | AttributeError
  | KeyError string
  | IndexError
  | PermissionError
  | External string
  | Unmodelled string

text \<open>
  \<^verbatim>\<open>json.dump\<close> raises \<^verbatim>\<open>TypeError\<close> on a value that holds an object it cannot
  encode. Dictionary keys are strings here, so only \<open>PObject\<close> fails.
\<close>

fun json_serializable :: "pyval \<Rightarrow> bool" where
  "json_serializable (PObject _) = False"
| "json_serializable (PList xs) = list_all json_serializable xs"
| "json_serializable (PDict kvs) = list_all json_serializable (map snd kvs)"
| "json_serializable _ = True"

text \<open>
  The text of a file, as far as \<^verbatim>\<open>json.load\<close> can tell texts apart:
  \<^item> \<open>Json_text v\<close>: a complete JSON document that parses to \<open>v\<close>;
  \<^item> \<open>Partial_text v\<close>: what an interrupted \<^verbatim>\<open>json.dump\<close> of \<open>v\<close> left behind, the
    chunks written before the encoder raised (a document that lacks its end);
  \<^item> \<open>Other_text s\<close>: any other text \<open>s\<close>, none of which is a JSON document; the
    empty text of a freshly truncated file is \<open>Other_text []\<close>.
\<close>

datatype file_text = Json_text pyval | Partial_text pyval | Other_text string

record fs_file =
  readable :: bool
  writable :: bool
  content :: file_text

fun json_load :: "file_text \<Rightarrow> error + pyval" where
  "json_load (Json_text v) = Inr v"
| "json_load (Partial_text v) = Inl JSONDecodeError"
| "json_load (Other_text s) = Inl JSONDecodeError"

section \<open>The world the fixtures act on\<close>

text \<open>
  Side effects are explicit. Time is a real number of seconds (the rounding of floats is
  left out). A world holds the wall clock, the files (regular files by
  path), the state \<open>'c\<close> of the cluster behind the client, and the trace of what the
  program did, in program order: starting the watcher thread, calling the operation,
  sleeping, joining the watcher (with the number of requests it sent to the alerting
  API) and running a cluster command. Logging is left out.
\<close>

datatype event =
    Watcher_started
  | Operation_called
  | Slept real
  | Watcher_joined nat
  | Exec string

record 'c world =
  now :: real
  files :: "string \<Rightarrow> fs_file option"
  cluster :: 'c
  trace :: "event list"

text \<open>
  One response of the alerting API: \<^verbatim>\<open>alerts_response.ok\<close> and the list under
  \<^verbatim>\<open>data.alerts\<close> of its body.
\<close>

record 'a response =
  resp_ok :: bool
  resp_alerts :: "'a list"

text \<open>
  What the surroundings decide during one run: the responses the watcher receives in the
  iterations it makes before it sees \<^verbatim>\<open>info['run']\<close> false, how much longer than
  asked a \<^verbatim>\<open>time.sleep\<close> lasts, and what the cluster does by itself while the test
  sleeps.
\<close>

record 'c env =
  polls :: "pyval response list"
  lag :: real
  elapse :: "real \<Rightarrow> 'c \<Rightarrow> 'c"

type_synonym ('c, 'a) action = "'c world \<Rightarrow> (error + 'a) \<times> 'c world"

definition log_event :: "event \<Rightarrow> 'c world \<Rightarrow> 'c world" where
  "log_event e w = w\<lparr>trace := trace w @ [e]\<rparr>"

text \<open>\<^verbatim>\<open>time.sleep(d)\<close>: the clock moves on by \<open>d\<close> and the lag.\<close>

definition sleep :: "'c env \<Rightarrow> real \<Rightarrow> 'c world \<Rightarrow> 'c world" where
  "sleep env d w =
     log_event (Slept d)
       (w\<lparr>now := now w + d + lag env, cluster := elapse env (d + lag env) (cluster w)\<rparr>)"

text \<open>\<^verbatim>\<open>os.path.isfile(p)\<close> and \<^verbatim>\<open>os.access(p, os.R_OK)\<close>.\<close>

definition isfile :: "'c world \<Rightarrow> string \<Rightarrow> bool" where
  "isfile w p = (case files w p of None \<Rightarrow> False | Some f \<Rightarrow> True)"

definition access_R_OK :: "'c world \<Rightarrow> string \<Rightarrow> bool" where
  "access_R_OK w p = (case files w p of None \<Rightarrow> False | Some f \<Rightarrow> readable f)"

text \<open>
  \<^verbatim>\<open>with open(p) as f: json.load(f)\<close>. Opening for reading fails on a missing or
  unreadable file.
\<close>

definition json_load_file :: "'c world \<Rightarrow> string \<Rightarrow> error + pyval" where
  "json_load_file w p =
     (case files w p of
        None \<Rightarrow> Inl (External ''FileNotFoundError'')
      | Some f \<Rightarrow> if readable f then json_load (content f) else Inl PermissionError)"

text \<open>
  \<^verbatim>\<open>open(p, 'w')\<close> works on the slot in place: a missing file is created empty, an
  existing writable file is truncated to the empty text, an existing file without write
  permission raises \<^verbatim>\<open>PermissionError\<close> and stays as it is.
\<close>

definition open_w :: "string \<Rightarrow> ('c, unit) action" where
  "open_w p w =
     (case files w p of
        None \<Rightarrow>
          (Inr (), w\<lparr>files := (files w)(p \<mapsto>
             \<lparr>readable = True, writable = True, content = Other_text []\<rparr>)\<rparr>)
      | Some f \<Rightarrow>
          if writable f
          then (Inr (), w\<lparr>files := (files w)(p \<mapsto> f\<lparr>content := Other_text []\<rparr>)\<rparr>)
          else (Inl PermissionError, w))"

text \<open>
  \<^verbatim>\<open>json.dump(v, outfile)\<close> on the file opened at \<open>p\<close>, followed by the close of the
  \<^verbatim>\<open>with\<close> block. The encoder is a generator and \<^verbatim>\<open>json.dump\<close> writes each chunk
  as it comes, so when the encoder raises on an object it cannot encode, the chunks
  before it are already in the file.
\<close>

definition set_content :: "string \<Rightarrow> file_text \<Rightarrow> 'c world \<Rightarrow> 'c world" where
  "set_content p t w =
     (case files w p of
        None \<Rightarrow> w
      | Some f \<Rightarrow> w\<lparr>files := (files w)(p \<mapsto> f\<lparr>content := t\<rparr>)\<rparr>)"

definition json_dump :: "pyval \<Rightarrow> string \<Rightarrow> ('c, unit) action" where
  "json_dump v p w =
     (if json_serializable v
      then (Inr (), set_content p (Json_text v) w)
      else (Inl TypeError, set_content p (Partial_text v) w))"

section \<open>The watcher thread\<close>

text \<open>
  Python's \<^verbatim>\<open>==\<close> on these values. The three kinds of number compare by value
  (\<^verbatim>\<open>True == 1 == 1.0\<close>); lists compare element by element; dictionaries are equal when
  they have the same keys and equal values under each key, in whatever order the keys
  stand (a \<open>PDict\<close> list is read as the dictionary it denotes: the first pair of a key
  is its entry); values of different kinds are unequal. A \<open>PObject\<close> equals itself only.
  Floats are real numbers here, so there is no NaN.
\<close>

fun num_value :: "pyval \<Rightarrow> real option" where
  "num_value (PBool b) = Some (if b then 1 else 0)"
| "num_value (PInt i) = Some (of_int i)"
| "num_value (PFloat x) = Some x"
| "num_value v = None"

fun py_eq :: "pyval \<Rightarrow> pyval \<Rightarrow> bool" where
  "py_eq (PList xs) (PList ys) = list_all2 py_eq xs ys"
| "py_eq (PDict kvs) (PDict kvs') =
     (set (map fst kvs) = set (map fst kvs')
      \<and> list_all (\<lambda>kv. map_of kvs (fst kv) \<noteq> Some (snd kv)
                      \<or> (case map_of kvs' (fst kv) of
                            None \<Rightarrow> False
                          | Some v' \<Rightarrow> py_eq (snd kv) v')) kvs)"
| "py_eq (PStr s) (PStr t) = (s = t)"
| "py_eq PNone PNone = True"
| "py_eq (PObject l) (PObject m) = (l = m)"
| "py_eq a b = (case num_value a of
                  None \<Rightarrow> False
                | Some x \<Rightarrow> (case num_value b of None \<Rightarrow> False | Some y \<Rightarrow> x = y))"

text \<open>\<^verbatim>\<open>v in xs\<close>: some element of the list is \<^verbatim>\<open>==\<close> to \<open>v\<close>.\<close>

definition py_in :: "pyval \<Rightarrow> pyval list \<Rightarrow> bool" where
  "py_in v xs = list_ex (\<lambda>x. py_eq x v) xs"

text \<open>
  The inner loop of \<^verbatim>\<open>prometheus_log\<close>:
  \<^verbatim>\<open>for alert in ...: if alert not in alert_list: alert_list.append(alert)\<close>.
\<close>

fun add_alerts :: "pyval list \<Rightarrow> pyval list \<Rightarrow> pyval list" where
  "add_alerts alert_list [] = alert_list"
| "add_alerts alert_list (alert # rest) =
     add_alerts (if \<not> py_in alert alert_list then alert_list @ [alert] else alert_list) rest"

text \<open>
  How a thread ends: its target returned, or an exception left it. Python hands such an
  exception to \<^verbatim>\<open>threading.excepthook\<close>, which prints it; the thread is over and
  \<^verbatim>\<open>join\<close> returns \<^verbatim>\<open>None\<close> in both cases.
\<close>

datatype thread_exit = Returned | Died error

text \<open>
  \<^verbatim>\<open>prometheus_log\<close> over the responses of its iterations. The list ends where the
  loop sees \<^verbatim>\<open>info.get('run')\<close> false. The result is how the thread ended, the alert
  list as the thread left it, and the number of requests sent. The three seconds of
  sleep between requests pass in the watcher thread only.
\<close>

fun prometheus_log ::
  "pyval response list \<Rightarrow> pyval list \<Rightarrow> nat \<Rightarrow> thread_exit \<times> pyval list \<times> nat" where
  "prometheus_log [] alert_list n = (Returned, alert_list, n)"
| "prometheus_log (alerts_response # later) alert_list n =
     (if resp_ok alerts_response
      then prometheus_log later (add_alerts alert_list (resp_alerts alerts_response)) (Suc n)
      else (Died (AssertionError Request_failed), alert_list, Suc n))"

section \<open>measure_operation\<close>

text \<open>
  \<^verbatim>\<open>if minimal_time:\<close> holds for a number other than zero.
\<close>

definition truthy :: "real option \<Rightarrow> bool" where
  "truthy minimal_time = (case minimal_time of None \<Rightarrow> False | Some m \<Rightarrow> m \<noteq> 0)"

text \<open>
  The minimal-time extension:
  \<^verbatim>\<open>if minimal_time: additional_time = minimal_time - passed_time;
     if additional_time > 0: time.sleep(additional_time)\<close>.
\<close>

definition extend_run :: "'c env \<Rightarrow> real option \<Rightarrow> real \<Rightarrow> 'c world \<Rightarrow> 'c world" where
  "extend_run env minimal_time passed_time w =
     (if truthy minimal_time
      then (let additional_time = the minimal_time - passed_time
            in if additional_time > 0 then sleep env additional_time w else w)
      else w)"

text \<open>The dictionary \<^verbatim>\<open>results\<close>, keys in the order of the source.\<close>

definition make_results :: "real \<Rightarrow> real \<Rightarrow> pyval \<Rightarrow> pyval \<Rightarrow> pyval list \<Rightarrow> pyval" where
  "make_results start_time stop_time result metadata alert_list =
     PDict [(''start'', PFloat start_time),
            (''stop'', PFloat stop_time),
            (''result'', result),
            (''metadata'', metadata),
            (''prometheus_alerts'', PList alert_list)]"

text \<open>
  \<^verbatim>\<open>with open(result_file, 'w') as outfile: json.dump(results, outfile)\<close>.
\<close>

definition save_results :: "string \<Rightarrow> pyval \<Rightarrow> ('c, unit) action" where
  "save_results result_file results w =
     (case open_w result_file w of
        (Inl e, w1) \<Rightarrow> (Inl e, w1)
      | (Inr u, w1) \<Rightarrow> json_dump results result_file w1)"

text \<open>
  The measurement. The watcher runs beside the main thread from \<^verbatim>\<open>start()\<close> to
  \<^verbatim>\<open>join()\<close>; it shares only the flag and the alert list with it, and the main thread
  reads the list after the join, so the watcher's whole run is computed at the join. An
  exception in the watcher does not reach the main thread. When the operation raises,
  the exception leaves \<^verbatim>\<open>measure_operation\<close> at once: the flag stays true and the
  watcher is never joined.
\<close>

definition measure_operation ::
  "'c env \<Rightarrow> ('c, pyval) action \<Rightarrow> string \<Rightarrow> real option \<Rightarrow> pyval \<Rightarrow> bool \<Rightarrow> ('c, pyval) action" where
  "measure_operation env operation result_file minimal_time metadata measure_after w =
     (if isfile w result_file \<and> access_R_OK w result_file
      then (json_load_file w result_file, w)
      else
        (let before = now w;
             w1 = log_event Watcher_started w
         in case operation (log_event Operation_called w1) of
              (Inl e, w2) \<Rightarrow> (Inl e, w2)
            | (Inr result, w2) \<Rightarrow>
                (let start_time = (if measure_after then now w2 else before);
                     passed_time = now w2 - start_time;
                     w3 = extend_run env minimal_time passed_time w2;
                     stop_time = now w3;
                     (exit, alert_list, requests) = prometheus_log (polls env) [] 0;
                     w4 = log_event (Watcher_joined requests) w3;
                     results = make_results start_time stop_time result metadata alert_list
                 in case save_results result_file results w4 of
                      (Inl e, w5) \<Rightarrow> (Inl e, w5)
                    | (Inr u, w5) \<Rightarrow> (Inr results, w5))))"

section \<open>Python subscripts and iteration\<close>

text \<open>\<^verbatim>\<open>v[k]\<close> for a string key \<open>k\<close>: only a dictionary takes one.\<close>

fun getitem :: "pyval \<Rightarrow> string \<Rightarrow> error + pyval" where
  "getitem (PDict kvs) k = (case map_of kvs k of None \<Rightarrow> Inl (KeyError k) | Some v \<Rightarrow> Inr v)"
| "getitem (PObject l) k = Inl (Unmodelled l)"
| "getitem v k = Inl TypeError"

text \<open>\<^verbatim>\<open>v.get(k)\<close>: \<^verbatim>\<open>None\<close> for a missing key; only a dictionary has the method.\<close>

fun get_method :: "pyval \<Rightarrow> string \<Rightarrow> error + pyval" where
  "get_method (PDict kvs) k = (case map_of kvs k of None \<Rightarrow> Inr PNone | Some v \<Rightarrow> Inr v)"
| "get_method (PObject l) k = Inl (Unmodelled l)"
| "get_method v k = Inl AttributeError"

text \<open>\<^verbatim>\<open>xs[0]\<close> and \<^verbatim>\<open>xs[-1]\<close> on a list.\<close>

definition first_item :: "'a list \<Rightarrow> error + 'a" where
  "first_item xs = (case xs of [] \<Rightarrow> Inl IndexError | x # rest \<Rightarrow> Inr x)"

definition last_item :: "'a list \<Rightarrow> error + 'a" where
  "last_item xs = (if xs = [] then Inl IndexError else Inr (last xs))"

text \<open>
  \<^verbatim>\<open>v[0]\<close> on a value: the first element of a list, the first character of a
  string; a dictionary (with its string keys) has no key \<open>0\<close>.
\<close>

fun first_of :: "pyval \<Rightarrow> error + pyval" where
  "first_of (PList xs) = first_item xs"
| "first_of (PStr s) = (case s of [] \<Rightarrow> Inl IndexError | c # rest \<Rightarrow> Inr (PStr [c]))"
| "first_of (PDict kvs) = Inl (KeyError ''0'')"
| "first_of (PObject l) = Inl (Unmodelled l)"
| "first_of v = Inl TypeError"

text \<open>
  \<^verbatim>\<open>for d in v\<close>: a list gives its elements, a dictionary its keys, a string its
  characters; nothing else here can be iterated.
\<close>

fun iterate :: "pyval \<Rightarrow> error + pyval list" where
  "iterate (PList xs) = Inr xs"
| "iterate (PDict kvs) = Inr (map (\<lambda>kv. PStr (fst kv)) kvs)"
| "iterate (PStr s) = Inr (map (\<lambda>c. PStr [c]) s)"
| "iterate (PObject l) = Inl (Unmodelled l)"
| "iterate v = Inl TypeError"

text \<open>A comprehension stops at the first element whose expression raises.\<close>

fun map_err :: "('a \<Rightarrow> error + 'b) \<Rightarrow> 'a list \<Rightarrow> error + 'b list" where
  "map_err f [] = Inr []"
| "map_err f (x # xs) =
     (case f x of
        Inl e \<Rightarrow> Inl e
      | Inr y \<Rightarrow> (case map_err f xs of Inl e \<Rightarrow> Inl e | Inr ys \<Rightarrow> Inr (y # ys)))"

text \<open>
  A deployment name is a string (the cluster API gives no other); the embedding stops at
  a name of another type instead of formatting it.
\<close>

fun str_value :: "pyval \<Rightarrow> error + string" where
  "str_value (PStr s) = Inr s"
| "str_value v = Inl (Unmodelled ''name is not a string'')"

text \<open>\<^verbatim>\<open>os.path.join(a, b)\<close> for a relative \<open>b\<close>.\<close>

definition path_join :: "string \<Rightarrow> string \<Rightarrow> string" where
  "path_join a b = (if a = [] \<or> last a = CHR ''/'' then a @ b else a @ ''/'' @ b)"

section \<open>The cluster client\<close>

text \<open>
  \<^verbatim>\<open>ocp.OCP\<close> is not part of these sources, so the client is a parameter: what
  \<^verbatim>\<open>oc.get(selector=...)\<close> and \<^verbatim>\<open>oc.get(name)\<close> return in a cluster state, and what
  \<^verbatim>\<open>oc.exec_oc_cmd(cmd)\<close> makes of it. Each may raise.
\<close>

record 'c ocp =
  get_selector :: "string \<Rightarrow> 'c \<Rightarrow> error + pyval"
  get_resource :: "string \<Rightarrow> 'c \<Rightarrow> error + pyval"
  exec_cmd :: "string \<Rightarrow> 'c \<Rightarrow> error + 'c"

definition MON_APP_LABEL :: string where
  "MON_APP_LABEL = ''app=rook-ceph-mon''"

definition MGR_APP_LABEL :: string where
  "MGR_APP_LABEL = ''app=rook-ceph-mgr''"

definition OSD_APP_LABEL :: string where
  "OSD_APP_LABEL = ''app=rook-ceph-osd''"

text \<open>\<^verbatim>\<open>oc.exec_oc_cmd(cmd)\<close>: the command is in the trace whether it fails or not.\<close>

definition exec_oc_cmd :: "'c ocp \<Rightarrow> string \<Rightarrow> ('c, unit) action" where
  "exec_oc_cmd oc cmd w =
     (let w1 = log_event (Exec cmd) w
      in case exec_cmd oc cmd (cluster w1) of
           Inl e \<Rightarrow> (Inl e, w1)
         | Inr c \<Rightarrow> (Inr (), w1\<lparr>cluster := c\<rparr>))"

text \<open>\<^verbatim>\<open>f"scale --replicas={n} deployment/{name}"\<close>, for the two replica counts used.\<close>

definition scale_cmd :: "string \<Rightarrow> string \<Rightarrow> string" where
  "scale_cmd replicas name = ''scale --replicas='' @ replicas @ '' deployment/'' @ name"

text \<open>
  \<^verbatim>\<open>for mon in mons_to_stop: oc.exec_oc_cmd(f"scale --replicas=... deployment/{mon}")\<close>.
\<close>

fun scale_each :: "'c ocp \<Rightarrow> string \<Rightarrow> string list \<Rightarrow> ('c, unit) action" where
  "scale_each oc replicas [] w = (Inr (), w)"
| "scale_each oc replicas (mon # rest) w =
     (case exec_oc_cmd oc (scale_cmd replicas mon) w of
        (Inl e, w1) \<Rightarrow> (Inl e, w1)
      | (Inr u, w1) \<Rightarrow> scale_each oc replicas rest w1)"

text \<open>
  \<^verbatim>\<open>[d['metadata']['name'] for d in oc.get(selector=label)['items']]\<close>, the listing of
  the manager and monitor fixtures.
\<close>

definition name_of :: "pyval \<Rightarrow> error + string" where
  "name_of deployment =
     (case getitem deployment ''metadata'' of
        Inl e \<Rightarrow> Inl e
      | Inr metadata \<Rightarrow>
          (case getitem metadata ''name'' of Inl e \<Rightarrow> Inl e | Inr name \<Rightarrow> str_value name))"

definition list_items :: "'c ocp \<Rightarrow> string \<Rightarrow> 'c \<Rightarrow> error + pyval list" where
  "list_items oc label c =
     (case get_selector oc label c of
        Inl e \<Rightarrow> Inl e
      | Inr listing \<Rightarrow>
          (case getitem listing ''items'' of Inl e \<Rightarrow> Inl e | Inr items \<Rightarrow> iterate items))"

definition list_names :: "'c ocp \<Rightarrow> string \<Rightarrow> 'c \<Rightarrow> error + string list" where
  "list_names oc label c =
     (case list_items oc label c of Inl e \<Rightarrow> Inl e | Inr items \<Rightarrow> map_err name_of items)"

section \<open>measure_stop_ceph_mgr\<close>

text \<open>The operation \<^verbatim>\<open>stop_mgr\<close>; it returns \<^verbatim>\<open>oc.get(mgr)\<close>.\<close>

definition stop_mgr :: "'c ocp \<Rightarrow> 'c env \<Rightarrow> string \<Rightarrow> ('c, pyval) action" where
  "stop_mgr oc env mgr w =
     (let run_time = 60 * 6
      in case exec_oc_cmd oc (scale_cmd ''0'' mgr) w of
           (Inl e, w1) \<Rightarrow> (Inl e, w1)
         | (Inr u, w1) \<Rightarrow>
             (let w2 = sleep env run_time w1
              in case get_resource oc mgr (cluster w2) of
                   Inl e \<Rightarrow> (Inl e, w2)
                 | Inr r \<Rightarrow> (Inr r, w2)))"

text \<open>
  The fixture. \<^verbatim>\<open>mgr_deployments[0]['metadata']['name']\<close> looks at the first item
  only.
\<close>

definition first_name :: "'c ocp \<Rightarrow> string \<Rightarrow> 'c \<Rightarrow> error + string" where
  "first_name oc label c =
     (case get_selector oc label c of
        Inl e \<Rightarrow> Inl e
      | Inr listing \<Rightarrow>
          (case getitem listing ''items'' of
             Inl e \<Rightarrow> Inl e
           | Inr mgr_deployments \<Rightarrow>
               (case first_of mgr_deployments of Inl e \<Rightarrow> Inl e | Inr d \<Rightarrow> name_of d)))"

definition measure_stop_ceph_mgr :: "'c ocp \<Rightarrow> 'c env \<Rightarrow> string \<Rightarrow> ('c, pyval) action" where
  "measure_stop_ceph_mgr oc env measurement_dir w =
     (case first_name oc MGR_APP_LABEL (cluster w) of
        Inl e \<Rightarrow> (Inl e, w)
      | Inr mgr \<Rightarrow>
          (let test_file = path_join measurement_dir ''measure_stop_ceph_mgr.json''
           in case measure_operation env (stop_mgr oc env mgr) test_file None PNone False w of
                (Inl e, w1) \<Rightarrow> (Inl e, w1)
              | (Inr measured_op, w1) \<Rightarrow>
                  (case exec_oc_cmd oc (scale_cmd ''1'' mgr) w1 of
                     (Inl e, w2) \<Rightarrow> (Inl e, w2)
                   | (Inr u, w2) \<Rightarrow> (Inr measured_op, w2))))"

section \<open>measure_stop_ceph_mon\<close>

text \<open>
  \<^verbatim>\<open>split_index = len(mons) // 2 if len(mons) > 3 else 2\<close> and
  \<^verbatim>\<open>mons_to_stop = mons[split_index:]\<close>.
\<close>

definition split_index :: "string list \<Rightarrow> nat" where
  "split_index mons = (if length mons > 3 then length mons div 2 else 2)"

definition mons_to_stop :: "string list \<Rightarrow> string list" where
  "mons_to_stop mons = drop (split_index mons) mons"

definition stop_mon :: "'c ocp \<Rightarrow> 'c env \<Rightarrow> string list \<Rightarrow> ('c, pyval) action" where
  "stop_mon oc env to_stop w =
     (let run_time = 60 * 12
      in case scale_each oc ''0'' to_stop w of
           (Inl e, w1) \<Rightarrow> (Inl e, w1)
         | (Inr u, w1) \<Rightarrow> (Inr (PList (map PStr to_stop)), sleep env run_time w1))"

text \<open>
  \<^verbatim>\<open>check_old_mons_deleted = all(mon not in mons for mon in mons_to_stop)\<close>,
  against the second listing.
\<close>

definition check_old_mons_deleted :: "string list \<Rightarrow> string list \<Rightarrow> bool" where
  "check_old_mons_deleted mons to_stop = list_all (\<lambda>mon. mon \<notin> set mons) to_stop"

definition measure_stop_ceph_mon :: "'c ocp \<Rightarrow> 'c env \<Rightarrow> string \<Rightarrow> ('c, pyval) action" where
  "measure_stop_ceph_mon oc env measurement_dir w =
     (case list_names oc MON_APP_LABEL (cluster w) of
        Inl e \<Rightarrow> (Inl e, w)
      | Inr mons \<Rightarrow>
          (let to_stop = mons_to_stop mons;
               test_file = path_join measurement_dir ''measure_stop_ceph_mon.json''
           in case measure_operation env (stop_mon oc env to_stop) test_file None PNone False w of
                (Inl e, w1) \<Rightarrow> (Inl e, w1)
              | (Inr measured_op, w1) \<Rightarrow>
                  (case list_names oc MON_APP_LABEL (cluster w1) of
                     Inl e \<Rightarrow> (Inl e, w1)
                   | Inr mons' \<Rightarrow>
                       if \<not> check_old_mons_deleted mons' to_stop
                       then (case scale_each oc ''1'' to_stop w1 of
                               (Inl e, w2) \<Rightarrow> (Inl e, w2)
                             | (Inr u, w2) \<Rightarrow>
                                 (Inl (AssertionError (Monitors_not_replaced to_stop)), w2))
                       else (Inr measured_op, w1))))"

section \<open>measure_stop_ceph_osd\<close>

text \<open>
  \<^verbatim>\<open>[d.get('metadata').get('name') for d in oc.get(selector=label).get('items')]\<close>:
  this fixture reads the listing with \<^verbatim>\<open>.get\<close>.
\<close>

definition name_of_get :: "pyval \<Rightarrow> error + string" where
  "name_of_get deployment =
     (case get_method deployment ''metadata'' of
        Inl e \<Rightarrow> Inl e
      | Inr metadata \<Rightarrow>
          (case get_method metadata ''name'' of Inl e \<Rightarrow> Inl e | Inr name \<Rightarrow> str_value name))"

definition list_names_get :: "'c ocp \<Rightarrow> string \<Rightarrow> 'c \<Rightarrow> error + string list" where
  "list_names_get oc label c =
     (case get_selector oc label c of
        Inl e \<Rightarrow> Inl e
      | Inr listing \<Rightarrow>
          (case get_method listing ''items'' of
             Inl e \<Rightarrow> Inl e
           | Inr items \<Rightarrow>
               (case iterate items of Inl e \<Rightarrow> Inl e | Inr ds \<Rightarrow> map_err name_of_get ds)))"

definition stop_osd :: "'c ocp \<Rightarrow> 'c env \<Rightarrow> string \<Rightarrow> ('c, pyval) action" where
  "stop_osd oc env osd_to_stop w =
     (let run_time = 60 * 11
      in case exec_oc_cmd oc (scale_cmd ''0'' osd_to_stop) w of
           (Inl e, w1) \<Rightarrow> (Inl e, w1)
         | (Inr u, w1) \<Rightarrow> (Inr (PStr osd_to_stop), sleep env run_time w1))"

definition measure_stop_ceph_osd :: "'c ocp \<Rightarrow> 'c env \<Rightarrow> string \<Rightarrow> ('c, pyval) action" where
  "measure_stop_ceph_osd oc env measurement_dir w =
     (case list_names_get oc OSD_APP_LABEL (cluster w) of
        Inl e \<Rightarrow> (Inl e, w)
      | Inr osds \<Rightarrow>
          (case last_item osds of
             Inl e \<Rightarrow> (Inl e, w)
           | Inr osd_to_stop \<Rightarrow>
               (let test_file = path_join measurement_dir ''measure_stop_ceph_osd.json''
                in case measure_operation env (stop_osd oc env osd_to_stop) test_file
                          None PNone False w of
                     (Inl e, w1) \<Rightarrow> (Inl e, w1)
                   | (Inr measured_op, w1) \<Rightarrow>
                       (case exec_oc_cmd oc (scale_cmd ''1'' osd_to_stop) w1 of
                          (Inl e, w2) \<Rightarrow> (Inl e, w2)
                        | (Inr u, w2) \<Rightarrow> (Inr measured_op, w2)))))"

section \<open>What the claims speak of\<close>

subsection \<open>The alert stream\<close>

text \<open>
  The alerts the watcher is shown, in the order received: those of the responses before
  the first failed one (the thread is over at that one).
\<close>

definition alert_stream :: "'a response list \<Rightarrow> 'a list" where
  "alert_stream responses = concat (map resp_alerts (takeWhile resp_ok responses))"

text \<open>The alert list the watcher leaves to the main thread, started on the empty list.\<close>

definition watched_alerts :: "pyval response list \<Rightarrow> pyval list" where
  "watched_alerts responses = fst (snd (prometheus_log responses [] 0))"

text \<open>
  The specification's reading of the list: every alert once, where it first occurs, with
  alerts told apart as \<^verbatim>\<open>==\<close> tells them apart. \<open>first_index a xs\<close> is the position
  of the first \<open>a\<close> in \<open>xs\<close>.
\<close>

fun first_seen :: "pyval list \<Rightarrow> pyval list" where
  "first_seen [] = []"
| "first_seen (x # xs) = x # first_seen (filter (\<lambda>y. \<not> py_eq x y) xs)"

fun first_index :: "'a \<Rightarrow> 'a list \<Rightarrow> nat" where
  "first_index a [] = 0"
| "first_index a (x # xs) = (if x = a then 0 else Suc (first_index a xs))"

subsection \<open>Records and slots\<close>

text \<open>
  The specification's measurement record: a JSON object with \<open>start\<close> and \<open>stop\<close>
  (floats), \<open>result\<close> (any value), \<open>metadata\<close> (an object or null) and the alerts (an
  array of objects, under the key the code writes).
\<close>

fun is_float :: "pyval \<Rightarrow> bool" where
  "is_float (PFloat x) = True"
| "is_float v = False"

fun is_object :: "pyval \<Rightarrow> bool" where
  "is_object (PDict kvs) = True"
| "is_object v = False"

fun is_object_array :: "pyval \<Rightarrow> bool" where
  "is_object_array (PList xs) = list_all is_object xs"
| "is_object_array v = False"

definition has_field :: "(pyval \<Rightarrow> bool) \<Rightarrow> (string \<times> pyval) list \<Rightarrow> string \<Rightarrow> bool" where
  "has_field P kvs k = (case map_of kvs k of None \<Rightarrow> False | Some v \<Rightarrow> P v)"

fun is_measurement_record :: "pyval \<Rightarrow> bool" where
  "is_measurement_record (PDict kvs) =
     (has_field is_float kvs ''start'' \<and> has_field is_float kvs ''stop''
      \<and> has_field (\<lambda>v. True) kvs ''result''
      \<and> has_field (\<lambda>v. is_object v \<or> v = PNone) kvs ''metadata''
      \<and> has_field is_object_array kvs ''prometheus_alerts'')"
| "is_measurement_record v = False"

text \<open>The text a reader finds in a slot, if the slot is there.\<close>

definition slot_text :: "'c world \<Rightarrow> string \<Rightarrow> file_text option" where
  "slot_text w p = map_option content (files w p)"

text \<open>\<^verbatim>\<open>open(p, 'w')\<close> will not raise: the file is missing or writable.\<close>

definition can_write :: "'c world \<Rightarrow> string \<Rightarrow> bool" where
  "can_write w p = (case files w p of None \<Rightarrow> True | Some f \<Rightarrow> writable f)"

text \<open>
  The worlds another process can look at while \<open>save_results\<close> runs: before the
  \<^verbatim>\<open>open\<close>, between the \<^verbatim>\<open>open\<close> and the \<^verbatim>\<open>json.dump\<close>, and after the
  \<^verbatim>\<open>with\<close> block.
\<close>

definition save_stages :: "string \<Rightarrow> pyval \<Rightarrow> 'c world \<Rightarrow> 'c world list" where
  "save_stages result_file results w =
     (case open_w result_file w of
        (Inl e, w1) \<Rightarrow> [w, w1]
      | (Inr u, w1) \<Rightarrow> [w, w1, snd (json_dump results result_file w1)])"

text \<open>
  The specification's atomic save: whenever a reader looks, the slot holds what it held
  before or the complete new record.
\<close>

definition atomic_save :: "string \<Rightarrow> pyval \<Rightarrow> 'c world \<Rightarrow> bool" where
  "atomic_save result_file results w =
     list_all (\<lambda>w'. slot_text w' result_file = slot_text w result_file
                   \<or> slot_text w' result_file = Some (Json_text results))
       (save_stages result_file results w)"

text \<open>A slot that is there and readable and does not hold a JSON document.\<close>

definition undecodable_slot :: "'c world \<Rightarrow> string \<Rightarrow> bool" where
  "undecodable_slot w p =
     (case files w p of
        None \<Rightarrow> False
      | Some f \<Rightarrow> readable f \<and> json_load (content f) = Inl JSONDecodeError)"

text \<open>The cluster commands of a trace, in order.\<close>

fun commands :: "event list \<Rightarrow> string list" where
  "commands [] = []"
| "commands (Exec cmd # es) = cmd # commands es"
| "commands (e # es) = commands es"

text \<open>The alerts the API returns are JSON values, so \<^verbatim>\<open>json.dump\<close> encodes them.\<close>

definition alerts_are_json :: "'c env \<Rightarrow> bool" where
  "alerts_are_json env =
     list_all (\<lambda>r. list_all json_serializable (resp_alerts r)) (polls env)"

text \<open>Every command the client is given succeeds.\<close>

definition exec_succeeds :: "'c ocp \<Rightarrow> bool" where
  "exec_succeeds oc = (\<forall>cmd c. \<exists>c'. exec_cmd oc cmd c = Inr c')"

subsection \<open>A cluster for concrete runs\<close>

text \<open>
  Modelled from the spec: the cluster resource API (\<^verbatim>\<open>ocp.OCP\<close> is not among the
  sources). A cluster is its deployments; a listing is an object whose \<open>items\<close> are the
  resource objects with the label, each with \<open>metadata.name\<close>; \<open>get\<close> returns the
  resource object of a name; \<open>scale --replicas=N deployment/name\<close> sets the replicas
  of that deployment.
\<close>

record deployment =
  dep_name :: string
  dep_label :: string
  replicas :: nat

definition resource_object :: "deployment \<Rightarrow> pyval" where
  "resource_object d =
     PDict [(''metadata'', PDict [(''name'', PStr (dep_name d))]),
            (''spec'', PDict [(''replicas'', PInt (int (replicas d)))])]"

definition scaled :: "string \<Rightarrow> deployment \<Rightarrow> deployment" where
  "scaled cmd d =
     (if cmd = scale_cmd ''0'' (dep_name d) then d\<lparr>replicas := 0\<rparr>
      else if cmd = scale_cmd ''1'' (dep_name d) then d\<lparr>replicas := 1\<rparr>
      else d)"

definition small_cluster_client :: "deployment list ocp" where
  "small_cluster_client =
     \<lparr>get_selector = (\<lambda>label c.
          Inr (PDict [(''items'', PList (map resource_object
                                         (filter (\<lambda>d. dep_label d = label) c)))])),
      get_resource = (\<lambda>name c.
          case find (\<lambda>d. dep_name d = name) c of
            None \<Rightarrow> Inl (External ''NotFound'')
          | Some d \<Rightarrow> Inr (resource_object d)),
      exec_cmd = (\<lambda>cmd c. Inr (map (scaled cmd) c))\<rparr>"

text \<open>
  The operator at work: after ten minutes a monitor deployment that was scaled to zero
  has been replaced by a new one under another name.
\<close>

definition replaced :: "deployment \<Rightarrow> deployment" where
  "replaced d =
     (if dep_label d = MON_APP_LABEL \<and> replicas d = 0
      then d\<lparr>dep_name := dep_name d @ ''-new'', replicas := 1\<rparr>
      else d)"

definition self_healing :: "real \<Rightarrow> deployment list \<Rightarrow> deployment list" where
  "self_healing d c = (if d \<ge> 600 then map replaced c else c)"

definition quiet_env :: "deployment list env" where
  "quiet_env = \<lparr>polls = [], lag = 0, elapse = (\<lambda>d c. c)\<rparr>"

definition healing_env :: "deployment list env" where
  "healing_env = \<lparr>polls = [], lag = 0, elapse = self_healing\<rparr>"

definition mon :: "string \<Rightarrow> deployment" where
  "mon name = \<lparr>dep_name = name, dep_label = MON_APP_LABEL, replicas = 1\<rparr>"

definition four_mons :: "deployment list" where
  "four_mons = [mon ''mon-a'', mon ''mon-b'', mon ''mon-c'', mon ''mon-d'']"

definition one_mgr :: "deployment list" where
  "one_mgr = [\<lparr>dep_name = ''rook-ceph-mgr-a'', dep_label = MGR_APP_LABEL, replicas = 1\<rparr>]"

text \<open>A world at time 1000 with no files, and one with a file at a path.\<close>

definition fresh_world :: "'c \<Rightarrow> 'c world" where
  "fresh_world c = \<lparr>now = 1000, files = Map.empty, cluster = c, trace = []\<rparr>"

definition world_with_file :: "'c \<Rightarrow> string \<Rightarrow> fs_file \<Rightarrow> 'c world" where
  "world_with_file c p f = \<lparr>now = 1000, files = [p \<mapsto> f], cluster = c, trace = []\<rparr>"

text \<open>An operation that takes ten seconds and returns a string.\<close>

definition ten_seconds :: "'c env \<Rightarrow> ('c, pyval) action" where
  "ten_seconds env w = (Inr (PStr ''done''), sleep env 10 w)"


text \<open>
  Two alerts of one name in two states, as the API shows an alert that goes from pending
  to firing.
\<close>

definition alert :: "string \<Rightarrow> string \<Rightarrow> pyval" where
  "alert name state =
     PDict [(''labels'', PDict [(''alertname'', PStr name)]), (''state'', PStr state)]"

definition alertname :: "pyval \<Rightarrow> error + pyval" where
  "alertname a = (case getitem a ''labels'' of Inl e \<Rightarrow> Inl e | Inr l \<Rightarrow> getitem l ''alertname'')"

definition two_polls :: "pyval response list" where
  "two_polls =
     [\<lparr>resp_ok = True, resp_alerts = [alert ''CephMgrIsAbsent'' ''pending'']\<rparr>,
      \<lparr>resp_ok = True, resp_alerts = [alert ''CephMgrIsAbsent'' ''pending'',
                                       alert ''CephMgrIsAbsent'' ''firing'']\<rparr>]"

text \<open>
  Alerts of one name that differ in the kind of one value only, \<^verbatim>\<open>1\<close>, \<^verbatim>\<open>true\<close>
  and \<^verbatim>\<open>1.0\<close> in the JSON of the response, all in one response.
\<close>

definition valued_alert :: "pyval \<Rightarrow> pyval" where
  "valued_alert v =
     PDict [(''labels'', PDict [(''alertname'', PStr ''CephMgrIsAbsent'')]), (''value'', v)]"

definition equal_value_polls :: "pyval response list" where
  "equal_value_polls =
     [\<lparr>resp_ok = True,
       resp_alerts = [valued_alert (PInt 1), valued_alert (PBool True),
                      valued_alert (PFloat 1)]\<rparr>]"

text \<open>Surroundings for concrete runs of the measurement alone, and a stored record.\<close>

definition busy_env :: "unit env" where
  "busy_env = \<lparr>polls = two_polls, lag = 1 / 2, elapse = (\<lambda>d c. c)\<rparr>"

definition stored_record :: pyval where
  "stored_record = make_results 1 2 (PStr ''rook-ceph-osd-2'') PNone []"

definition stored_file :: fs_file where
  "stored_file = \<lparr>readable = True, writable = True, content = Json_text stored_record\<rparr>"

definition busy_alerts :: "pyval list" where
  "busy_alerts = [alert ''CephMgrIsAbsent'' ''pending'', alert ''CephMgrIsAbsent'' ''firing'']"

text \<open>
  Surroundings in which the second request to the alerting API fails, files without
  permissions, and a record whose result cannot be encoded.
\<close>

definition failing_env :: "unit env" where
  "failing_env =
     \<lparr>polls = [\<lparr>resp_ok = True, resp_alerts = [alert ''CephMgrIsAbsent'' ''pending'']\<rparr>,
               \<lparr>resp_ok = False, resp_alerts = []\<rparr>,
               \<lparr>resp_ok = True, resp_alerts = [alert ''CephMgrIsAbsent'' ''firing'']\<rparr>],
      lag = 0, elapse = (\<lambda>d c. c)\<rparr>"

definition locked_file :: fs_file where
  "locked_file = \<lparr>readable = False, writable = False, content = Json_text stored_record\<rparr>"

definition write_only_file :: fs_file where
  "write_only_file = \<lparr>readable = False, writable = True, content = Json_text stored_record\<rparr>"

definition unencodable_record :: pyval where
  "unencodable_record = make_results 1 2 (PObject ''set'') PNone []"

text \<open>Result files that hold no record: a text that is not JSON, and an empty JSON object.\<close>

definition corrupt_file :: fs_file where
  "corrupt_file = \<lparr>readable = True, writable = True, content = Other_text ''Traceback''\<rparr>"

definition empty_object_file :: fs_file where
  "empty_object_file = \<lparr>readable = True, writable = True, content = Json_text (PDict [])\<rparr>"

section \<open>The alert list: no duplicates, first-seen order\<close>

subsection \<open>Python equality is an equivalence\<close>

lemma py_eq_numbers:
  "num_value a = Some x \<Longrightarrow> py_eq a b = (num_value b = Some x)"
  by (cases a; cases b) auto

lemma py_eq_refl: "py_eq a a"
proof (induction a)
  case (PList xs)
  then show ?case by (simp add: list_all2_same)
next
  case (PDict kvs)
  have "map_of kvs (fst kv) \<noteq> Some (snd kv)
        \<or> (case map_of kvs (fst kv) of None \<Rightarrow> False | Some v' \<Rightarrow> py_eq (snd kv) v')"
    if "kv \<in> set kvs" for kv
  proof (cases "map_of kvs (fst kv) = Some (snd kv)")
    case True
    have "snd kv \<in> Basic_BNFs.snds kv"
      by (cases kv) simp
    with PDict that have "py_eq (snd kv) (snd kv)" by blast
    with True show ?thesis by simp
  next
    case False
    then show ?thesis by simp
  qed
  then show ?case by (simp add: list_all_iff)
qed simp_all

lemma py_eq_dict_lookup:
  assumes "py_eq (PDict kvs) (PDict kvs')" "map_of kvs k = Some v"
  shows "\<exists>v'. map_of kvs' k = Some v' \<and> py_eq v v'"
proof -
  from assms(2) have mem: "(k, v) \<in> set kvs" by (rule map_of_SomeD)
  from assms(1) have every: "\<forall>kv \<in> set kvs. map_of kvs (fst kv) \<noteq> Some (snd kv)
        \<or> (case map_of kvs' (fst kv) of None \<Rightarrow> False | Some v' \<Rightarrow> py_eq (snd kv) v')"
    by (simp add: list_all_iff)
  from bspec[OF every mem] assms(2) show ?thesis
    by (cases "map_of kvs' k") auto
qed

lemma py_eq_dictI:
  assumes "set (map fst kvs) = set (map fst kvs')"
    and "\<And>k v. map_of kvs k = Some v \<Longrightarrow> \<exists>v'. map_of kvs' k = Some v' \<and> py_eq v v'"
  shows "py_eq (PDict kvs) (PDict kvs')"
proof -
  have "map_of kvs (fst kv) \<noteq> Some (snd kv)
        \<or> (case map_of kvs' (fst kv) of None \<Rightarrow> False | Some v' \<Rightarrow> py_eq (snd kv) v')"
    if "kv \<in> set kvs" for kv
  proof (cases "map_of kvs (fst kv) = Some (snd kv)")
    case True
    from assms(2)[OF True] show ?thesis by auto
  next
    case False
    then show ?thesis by simp
  qed
  with assms(1) show ?thesis by (simp add: list_all_iff)
qed

lemma map_of_value_in:
  "map_of kvs k = Some v \<Longrightarrow> \<exists>kv \<in> set kvs. v \<in> Basic_BNFs.snds kv"
  by (drule map_of_SomeD) force

lemma py_eq_sym: "py_eq a b \<Longrightarrow> py_eq b a"
proof (induction a arbitrary: b)
  case (PList xs)
  from PList.prems obtain ys where b: "b = PList ys" and l: "list_all2 py_eq xs ys"
    by (cases b) auto
  from l PList.IH have "list_all2 py_eq ys xs"
    by (auto simp: list_all2_conv_all_nth)
  with b show ?case by simp
next
  case (PDict kvs)
  from PDict.prems obtain kvs' where b: "b = PDict kvs'" and e: "py_eq (PDict kvs) (PDict kvs')"
    by (cases b) auto
  have keys: "set (map fst kvs') = set (map fst kvs)"
    using e by simp
  have "\<exists>v. map_of kvs k = Some v \<and> py_eq v' v" if "map_of kvs' k = Some v'" for k v'
  proof -
    from that have "k \<in> set (map fst kvs)"
      using keys by (metis map_of_eq_None_iff option.distinct(1) set_map)
    then obtain v where v: "map_of kvs k = Some v"
      by (metis map_of_eq_None_iff not_None_eq set_map)
    from py_eq_dict_lookup[OF e v] that have "py_eq v v'" by auto
    moreover from map_of_value_in[OF v] obtain kv where "kv \<in> set kvs" "v \<in> Basic_BNFs.snds kv"
      by blast
    ultimately have "py_eq v' v" using PDict.IH by blast
    with v show ?thesis by blast
  qed
  with keys have "py_eq (PDict kvs') (PDict kvs)" by (rule py_eq_dictI)
  with b show ?case by simp
next
  case PNone
  then show ?case by (cases b) auto
next
  case (PBool x)
  then show ?case by (cases b) auto
next
  case (PInt x)
  then show ?case by (cases b) auto
next
  case (PFloat x)
  then show ?case by (cases b) auto
next
  case (PStr x)
  then show ?case by (cases b) auto
next
  case (PObject x)
  then show ?case by (cases b) auto
qed

lemma py_eq_trans: "py_eq a b \<Longrightarrow> py_eq b c \<Longrightarrow> py_eq a c"
proof (induction a arbitrary: b c)
  case (PList xs)
  from PList.prems(1) obtain ys where b: "b = PList ys" and l1: "list_all2 py_eq xs ys"
    by (cases b) auto
  from PList.prems(2) b obtain zs where c: "c = PList zs" and l2: "list_all2 py_eq ys zs"
    by (cases c) auto
  have "list_all2 py_eq xs zs"
    using l1 l2 PList.IH
    by (auto simp: list_all2_conv_all_nth)
  with c show ?case by simp
next
  case (PDict kvs)
  from PDict.prems(1) obtain kvs' where b: "b = PDict kvs'"
    and e1: "py_eq (PDict kvs) (PDict kvs')"
    by (cases b) auto
  from PDict.prems(2) b obtain kvs'' where c: "c = PDict kvs''"
    and e2: "py_eq (PDict kvs') (PDict kvs'')"
    by (cases c) auto
  have keys: "set (map fst kvs) = set (map fst kvs'')"
    using e1 e2 by simp
  have "\<exists>v''. map_of kvs'' k = Some v'' \<and> py_eq v v''" if v: "map_of kvs k = Some v" for k v
  proof -
    from py_eq_dict_lookup[OF e1 v] obtain v' where v': "map_of kvs' k = Some v'" "py_eq v v'"
      by blast
    from py_eq_dict_lookup[OF e2 v'(1)] obtain v'' where
      v'': "map_of kvs'' k = Some v''" "py_eq v' v''"
      by blast
    from map_of_value_in[OF v] obtain kv where "kv \<in> set kvs" "v \<in> Basic_BNFs.snds kv"
      by blast
    with PDict.IH v'(2) v''(2) have "py_eq v v''" by blast
    with v''(1) show ?thesis by blast
  qed
  with keys have "py_eq (PDict kvs) (PDict kvs'')" by (rule py_eq_dictI)
  with c show ?case by simp
next
  case PNone
  then show ?case by (cases b; cases c) auto
next
  case (PBool x)
  then show ?case by (cases b; cases c) (auto split: if_splits)
next
  case (PInt x)
  then show ?case by (cases b; cases c) (auto split: if_splits)
next
  case (PFloat x)
  then show ?case by (cases b; cases c) (auto split: if_splits)
next
  case (PStr x)
  then show ?case by (cases b; cases c) auto
next
  case (PObject x)
  then show ?case by (cases b; cases c) auto
qed


subsection \<open>The alert list as the stream without repetitions\<close>

lemma filter_agree:
  "(\<And>x. x \<in> set xs \<Longrightarrow> P x = Q x) \<Longrightarrow> filter P xs = filter Q xs"
  by (induction xs) auto

lemma py_in_simps [simp]:
  "py_in v [] = False"
  "py_in v (x # xs) = (py_eq x v \<or> py_in v xs)"
  "py_in v (xs @ ys) = (py_in v xs \<or> py_in v ys)"
  by (simp_all add: py_in_def)

lemma py_in_iff: "py_in v xs = (\<exists>x \<in> set xs. py_eq x v)"
  by (simp add: py_in_def list_ex_iff)

lemma set_first_seen: "set (first_seen xs) \<subseteq> set xs"
  by (induction xs rule: first_seen.induct) auto

lemma first_seen_append:
  "first_seen (xs @ ys)
   = first_seen xs @ first_seen (filter (\<lambda>y. \<not> py_in y (first_seen xs)) ys)"
proof (induction xs arbitrary: ys rule: first_seen.induct)
  case 1
  show ?case by simp
next
  case (2 x xs)
  let ?xs' = "filter (\<lambda>y. \<not> py_eq x y) xs" and ?ys' = "filter (\<lambda>y. \<not> py_eq x y) ys"
  have eq: "filter (\<lambda>y. \<not> py_in y (first_seen ?xs')) ?ys'
            = filter (\<lambda>y. \<not> py_in y (first_seen (x # xs))) ys"
    unfolding filter_filter by (rule filter_agree) auto
  have "first_seen ((x # xs) @ ys) = x # first_seen (?xs' @ ?ys')"
    by simp
  also have "\<dots> = x # (first_seen ?xs'
                      @ first_seen (filter (\<lambda>y. \<not> py_in y (first_seen ?xs')) ?ys'))"
    by (simp only: "2.IH")
  also have "\<dots> = first_seen (x # xs)
                    @ first_seen (filter (\<lambda>y. \<not> py_in y (first_seen (x # xs))) ys)"
    by (simp only: eq first_seen.simps append_Cons)
  finally show ?case .
qed

lemma add_alerts_first_seen:
  "add_alerts acc xs = acc @ first_seen (filter (\<lambda>y. \<not> py_in y acc) xs)"
proof (induction xs arbitrary: acc)
  case Nil
  show ?case by simp
next
  case (Cons x xs)
  show ?case
  proof (cases "py_in x acc")
    case True
    then show ?thesis by (simp add: Cons.IH)
  next
    case False
    have "filter (\<lambda>y. \<not> py_in y (acc @ [x])) xs
          = filter (\<lambda>y. \<not> py_eq x y) (filter (\<lambda>y. \<not> py_in y acc) xs)"
      unfolding filter_filter by (rule filter_agree) auto
    with False show ?thesis by (simp add: Cons.IH)
  qed
qed

lemma prometheus_log_alert_list:
  "fst (snd (prometheus_log rs acc n))
   = acc @ first_seen (filter (\<lambda>y. \<not> py_in y acc) (alert_stream rs))"
proof (induction rs arbitrary: acc n)
  case Nil
  show ?case by (simp add: alert_stream_def)
next
  case (Cons r rs)
  show ?case
  proof (cases "resp_ok r")
    case False
    then show ?thesis by (simp add: alert_stream_def)
  next
    case True
    let ?new = "first_seen (filter (\<lambda>y. \<not> py_in y acc) (resp_alerts r))"
    have st: "alert_stream (r # rs) = resp_alerts r @ alert_stream rs"
      using True by (simp add: alert_stream_def)
    have "filter (\<lambda>y. \<not> py_in y (acc @ ?new)) (alert_stream rs)
          = filter (\<lambda>y. \<not> py_in y ?new) (filter (\<lambda>y. \<not> py_in y acc) (alert_stream rs))"
      unfolding filter_filter by (rule filter_agree) auto
    then show ?thesis
      using True by (simp add: st Cons.IH add_alerts_first_seen first_seen_append)
  qed
qed

lemma watched_alerts_first_seen: "watched_alerts rs = first_seen (alert_stream rs)"
  by (simp add: watched_alerts_def prometheus_log_alert_list)

lemma first_seen_once:
  "a \<in> set xs \<Longrightarrow> length (filter (\<lambda>x. py_eq x a) (first_seen xs)) = 1"
proof (induction xs rule: first_seen.induct)
  case 1
  then show ?case by simp
next
  case (2 x xs)
  let ?xs' = "filter (\<lambda>y. \<not> py_eq x y) xs"
  show ?case
  proof (cases "py_eq x a")
    case True
    have "\<not> py_eq y a" if "y \<in> set (first_seen ?xs')" for y
    proof
      assume "py_eq y a"
      then have "py_eq a y" by (rule py_eq_sym)
      with True have "py_eq x y" by (rule py_eq_trans)
      moreover from that set_first_seen have "y \<in> set ?xs'" by blast
      ultimately show False by simp
    qed
    then have "filter (\<lambda>x. py_eq x a) (first_seen ?xs') = []"
      by (simp add: filter_empty_conv)
    with True show ?thesis by simp
  next
    case False
    then have "a \<noteq> x" using py_eq_refl by auto
    with "2.prems" False have "a \<in> set ?xs'" by simp
    with "2.IH" False show ?thesis by simp
  qed
qed

lemma find_filter_irrelevant:
  "(\<And>y. y \<in> set xs \<Longrightarrow> P y \<Longrightarrow> Q y) \<Longrightarrow> find P (filter Q xs) = find P xs"
  by (induction xs) auto

text \<open>the alert kept for a is the first alert of the stream equal to a\<close>

lemma first_seen_first:
  "a \<in> set xs \<Longrightarrow> \<exists>x \<in> set (first_seen xs). find (\<lambda>y. py_eq y a) xs = Some x"
proof (induction xs rule: first_seen.induct)
  case 1
  then show ?case by simp
next
  case (2 x xs)
  let ?xs' = "filter (\<lambda>y. \<not> py_eq x y) xs"
  show ?case
  proof (cases "py_eq x a")
    case True
    then show ?thesis by simp
  next
    case False
    then have "a \<noteq> x" using py_eq_refl by auto
    with "2.prems" False have "a \<in> set ?xs'" by simp
    with "2.IH" obtain z where z: "z \<in> set (first_seen ?xs')"
      "find (\<lambda>y. py_eq y a) ?xs' = Some z"
      by blast
    have "\<not> py_eq x y" if "py_eq y a" for y
    proof
      assume "py_eq x y"
      from this that have "py_eq x a" by (rule py_eq_trans)
      with False show False by simp
    qed
    then have "find (\<lambda>y. py_eq y a) ?xs' = find (\<lambda>y. py_eq y a) xs"
      by (intro find_filter_irrelevant) blast
    with z False show ?thesis by simp
  qed
qed

lemma first_index_filter_mono:
  "Q a \<Longrightarrow> Q b \<Longrightarrow> first_index a (filter Q xs) < first_index b (filter Q xs) \<Longrightarrow>
   first_index a xs < first_index b xs"
proof (induction xs)
  case Nil
  then show ?case by simp
next
  case (Cons y ys)
  show ?case
  proof (cases "Q y")
    case True
    with Cons show ?thesis by (simp split: if_splits)
  next
    case False
    with Cons have "y \<noteq> a" "y \<noteq> b" by auto
    moreover have "first_index a ys < first_index b ys"
      using Cons False by simp
    ultimately show ?thesis by simp
  qed
qed

lemma first_seen_order:
  "sorted_wrt (\<lambda>a b. first_index a xs < first_index b xs) (first_seen xs)"
proof (induction xs rule: first_seen.induct)
  case 1
  show ?case by simp
next
  case (2 x xs)
  let ?xs' = "filter (\<lambda>y. \<not> py_eq x y) xs"
  let ?rest = "first_seen ?xs'"
  have mem: "\<not> py_eq x a \<and> a \<noteq> x" if "a \<in> set ?rest" for a
  proof -
    from that set_first_seen have "a \<in> set ?xs'" by blast
    then have "\<not> py_eq x a" by simp
    then show ?thesis using py_eq_refl by auto
  qed
  have step: "first_index a (x # xs) < first_index b (x # xs)"
    if "a \<in> set ?rest" "b \<in> set ?rest" "first_index a ?xs' < first_index b ?xs'" for a b
  proof -
    have ne: "\<not> py_eq x a" "\<not> py_eq x b" and ne': "a \<noteq> x" "b \<noteq> x"
      using that mem by blast+
    have "first_index a xs < first_index b xs"
      by (rule first_index_filter_mono[of "\<lambda>y. \<not> py_eq x y", OF ne that(3)])
    with ne' show ?thesis by simp
  qed
  have tail: "sorted_wrt (\<lambda>a b. first_index a (x # xs) < first_index b (x # xs)) ?rest"
    by (rule sorted_wrt_mono_rel[OF _ "2.IH"]) (rule step)
  have head: "first_index x (x # xs) < first_index b (x # xs)" if "b \<in> set ?rest" for b
    using mem[OF that] by auto
  show ?case
    unfolding first_seen.simps sorted_wrt.simps using head tail by blast
qed

lemma subseq_first_seen: "subseq (first_seen xs) xs"
proof (induction xs rule: first_seen.induct)
  case 1
  show ?case by simp
next
  case (2 x xs)
  have "subseq (filter (\<lambda>y. \<not> py_eq x y) xs) xs" by simp
  with 2 have "subseq (first_seen (filter (\<lambda>y. \<not> py_eq x y) xs)) xs"
    using subseq_order.order_trans by blast
  then show ?case by simp
qed

lemma first_seen_no_equal_pair:
  "sorted_wrt (\<lambda>a b. \<not> py_eq a b \<and> \<not> py_eq b a) (first_seen xs)"
proof (induction xs rule: first_seen.induct)
  case 1
  show ?case by simp
next
  case (2 x xs)
  have "\<not> py_eq x b \<and> \<not> py_eq b x"
    if "b \<in> set (first_seen (filter (\<lambda>y. \<not> py_eq x y) xs))" for b
  proof -
    from that set_first_seen have "b \<in> set (filter (\<lambda>y. \<not> py_eq x y) xs)" by blast
    then have "\<not> py_eq x b" by simp
    then show ?thesis using py_eq_sym by blast
  qed
  with 2 show ?case
    unfolding first_seen.simps sorted_wrt.simps by blast
qed

lemma distinct_if_unequal: "sorted_wrt (\<lambda>a b. a \<noteq> b) xs \<Longrightarrow> distinct xs"
  by (induction xs) auto

lemma distinct_first_seen: "distinct (first_seen xs)"
proof -
  have "sorted_wrt (\<lambda>a b. a \<noteq> b) (first_seen xs)"
    by (rule sorted_wrt_mono_rel[OF _ first_seen_no_equal_pair]) (use py_eq_refl in auto)
  then show ?thesis by (rule distinct_if_unequal)
qed


text \<open>
  Claim C5, as the code has it. Whatever responses the watcher receives, the alert list
  it leaves is the stream with every alert dropped that is \<^verbatim>\<open>==\<close> to one kept before
  it: a subsequence of the stream in which no two alerts are \<^verbatim>\<open>==\<close> (so all are
  different), in which every alert of the stream has exactly one equal, the first alert
  of the stream equal to it, and which is ordered by the position of first occurrence.
  Alerts are compared as whole values: two alerts that are not \<^verbatim>\<open>==\<close> are kept as two
  entries, whatever identifier \<open>ident\<close> they share.
\<close>

theorem alert_list_first_seen_no_duplicates:
  "watched_alerts rs = first_seen (alert_stream rs)
   \<and> subseq (watched_alerts rs) (alert_stream rs)
   \<and> sorted_wrt (\<lambda>a b. \<not> py_eq a b \<and> \<not> py_eq b a) (watched_alerts rs)
   \<and> distinct (watched_alerts rs)
   \<and> (\<forall>a \<in> set (alert_stream rs).
         length (filter (\<lambda>x. py_eq x a) (watched_alerts rs)) = 1)
   \<and> (\<forall>a \<in> set (alert_stream rs). \<exists>x \<in> set (watched_alerts rs).
         find (\<lambda>y. py_eq y a) (alert_stream rs) = Some x)
   \<and> sorted_wrt (\<lambda>a b. first_index a (alert_stream rs) < first_index b (alert_stream rs))
        (watched_alerts rs)
   \<and> (\<forall>a b. a \<in> set (alert_stream rs) \<and> b \<in> set (alert_stream rs) \<and> \<not> py_eq a b
          \<and> ident a = ident b
        \<longrightarrow> (\<exists>x \<in> set (watched_alerts rs). \<exists>y \<in> set (watched_alerts rs).
               x \<noteq> y \<and> py_eq x a \<and> py_eq y b))"
proof -
  let ?l = "watched_alerts rs" and ?s = "alert_stream rs"
  have eq: "?l = first_seen ?s" by (rule watched_alerts_first_seen)
  have sub: "subseq ?l ?s" by (simp add: eq subseq_first_seen)
  have pair: "sorted_wrt (\<lambda>a b. \<not> py_eq a b \<and> \<not> py_eq b a) ?l"
    by (simp add: eq first_seen_no_equal_pair)
  have d: "distinct ?l" by (simp add: eq distinct_first_seen)
  have once: "\<forall>a \<in> set ?s. length (filter (\<lambda>x. py_eq x a) ?l) = 1"
    by (simp add: eq first_seen_once)
  have first: "\<forall>a \<in> set ?s. \<exists>x \<in> set ?l. find (\<lambda>y. py_eq y a) ?s = Some x"
    by (simp add: eq first_seen_first)
  have ord: "sorted_wrt (\<lambda>a b. first_index a ?s < first_index b ?s) ?l"
    by (simp add: eq first_seen_order)
  have kept: "\<exists>x \<in> set ?l. \<exists>y \<in> set ?l. x \<noteq> y \<and> py_eq x a \<and> py_eq y b"
    if a: "a \<in> set ?s" and b: "b \<in> set ?s" and ne: "\<not> py_eq a b" for a b
  proof -
    from first a obtain x where x: "x \<in> set ?l" "find (\<lambda>y. py_eq y a) ?s = Some x"
      by blast
    from first b obtain y where y: "y \<in> set ?l" "find (\<lambda>y. py_eq y b) ?s = Some y"
      by blast
    from x(2) have xa: "py_eq x a" by (auto simp: find_Some_iff)
    from y(2) have yb: "py_eq y b" by (auto simp: find_Some_iff)
    have "x \<noteq> y"
    proof
      assume "x = y"
      with yb have "py_eq x b" by simp
      with py_eq_sym[OF xa] have "py_eq a b" by (rule py_eq_trans)
      with ne show False by simp
    qed
    with x(1) y(1) xa yb show ?thesis by blast
  qed
  from eq sub pair d once first ord kept show ?thesis by blast
qed

lemma watched_two_polls:
  "watched_alerts two_polls
   = [alert ''CephMgrIsAbsent'' ''pending'', alert ''CephMgrIsAbsent'' ''firing'']"
  by (simp add: watched_alerts_def two_polls_def alert_def py_in_def)

theorem alert_list_first_seen_no_duplicates_witness:
  "watched_alerts two_polls
     = [alert ''CephMgrIsAbsent'' ''pending'', alert ''CephMgrIsAbsent'' ''firing'']
   \<and> alert_stream two_polls
     = [alert ''CephMgrIsAbsent'' ''pending'', alert ''CephMgrIsAbsent'' ''pending'',
        alert ''CephMgrIsAbsent'' ''firing'']
   \<and> \<not> py_eq (alert ''CephMgrIsAbsent'' ''pending'') (alert ''CephMgrIsAbsent'' ''firing'')
   \<and> alertname (alert ''CephMgrIsAbsent'' ''pending'')
     = alertname (alert ''CephMgrIsAbsent'' ''firing'')
   \<and> length (filter (\<lambda>x. py_eq x (alert ''CephMgrIsAbsent'' ''pending''))
               (watched_alerts two_polls)) = 1
   \<and> (\<exists>x \<in> set (watched_alerts two_polls). \<exists>y \<in> set (watched_alerts two_polls).
         x \<noteq> y \<and> py_eq x (alert ''CephMgrIsAbsent'' ''pending'')
         \<and> py_eq y (alert ''CephMgrIsAbsent'' ''firing''))"
proof -
  let ?p = "alert ''CephMgrIsAbsent'' ''pending''" and ?f = "alert ''CephMgrIsAbsent'' ''firing''"
  have st: "alert_stream two_polls = [?p, ?p, ?f]"
    by (simp add: alert_stream_def two_polls_def)
  have ne: "\<not> py_eq ?p ?f"
    by (simp add: alert_def)
  have name: "alertname ?p = alertname ?f"
    by (simp add: alertname_def alert_def)
  have mem: "?p \<in> set (alert_stream two_polls)" "?f \<in> set (alert_stream two_polls)"
    by (simp_all add: st)
  from alert_list_first_seen_no_duplicates[of two_polls alertname] mem ne name
  have "length (filter (\<lambda>x. py_eq x ?p) (watched_alerts two_polls)) = 1"
    and "\<exists>x \<in> set (watched_alerts two_polls). \<exists>y \<in> set (watched_alerts two_polls).
           x \<noteq> y \<and> py_eq x ?p \<and> py_eq y ?f"
    by blast+
  with watched_two_polls st ne name show ?thesis by (intro conjI)
qed

text \<open>
  Claim C5 as stated fails where \<^verbatim>\<open>==\<close> is coarser than the structure of the values:
  three alerts of one name whose values are \<^verbatim>\<open>1\<close>, \<^verbatim>\<open>true\<close> and \<^verbatim>\<open>1.0\<close> are
  three different values, and only the first of them is kept.
\<close>

theorem equal_valued_alerts_are_merged:
  "valued_alert (PInt 1) \<noteq> valued_alert (PBool True)
   \<and> valued_alert (PInt 1) \<noteq> valued_alert (PFloat 1)
   \<and> alertname (valued_alert (PInt 1)) = alertname (valued_alert (PBool True))
   \<and> alert_stream equal_value_polls
     = [valued_alert (PInt 1), valued_alert (PBool True), valued_alert (PFloat 1)]
   \<and> watched_alerts equal_value_polls = [valued_alert (PInt 1)]
   \<and> valued_alert (PBool True) \<notin> set (watched_alerts equal_value_polls)
   \<and> valued_alert (PFloat 1) \<notin> set (watched_alerts equal_value_polls)"
  by (simp add: watched_alerts_def alert_stream_def equal_value_polls_def valued_alert_def
      alertname_def py_in_def)

section \<open>The measurement: cache, timestamps\<close>

lemma measure_operation_hit:
  assumes "files w result_file = Some f" "readable f"
  shows "measure_operation env operation result_file minimal_time metadata measure_after w
         = (json_load (content f), w)"
  using assms by (simp add: measure_operation_def isfile_def access_R_OK_def json_load_file_def)

lemma measure_operation_miss:
  assumes "\<not> (isfile w result_file \<and> access_R_OK w result_file)"
    and "operation (log_event Operation_called (log_event Watcher_started w)) = (Inr result, w2)"
  shows "measure_operation env operation result_file minimal_time metadata measure_after w
         = (let start_time = (if measure_after then now w2 else now w);
                w3 = extend_run env minimal_time (now w2 - start_time) w2;
                results = make_results start_time (now w3) result metadata
                            (watched_alerts (polls env));
                w4 = log_event (Watcher_joined (snd (snd (prometheus_log (polls env) [] 0)))) w3
            in case save_results result_file results w4 of
                 (Inl e, w5) \<Rightarrow> (Inl e, w5)
               | (Inr u, w5) \<Rightarrow> (Inr results, w5))"
proof -
  have c: "(isfile w result_file \<and> access_R_OK w result_file) = False"
    using assms(1) by blast
  obtain ex al n where pl: "prometheus_log (polls env) [] 0 = (ex, al, n)"
    by (cases "prometheus_log (polls env) [] 0") auto
  show ?thesis
    unfolding measure_operation_def c
    by (simp add: assms(2) pl watched_alerts_def Let_def split: prod.split sum.split)
qed

lemma measure_operation_raises:
  assumes "\<not> (isfile w result_file \<and> access_R_OK w result_file)"
    and "operation (log_event Operation_called (log_event Watcher_started w)) = (Inl e, w2)"
  shows "measure_operation env operation result_file minimal_time metadata measure_after w
         = (Inl e, w2)"
proof -
  have c: "(isfile w result_file \<and> access_R_OK w result_file) = False"
    using assms(1) by blast
  show ?thesis
    unfolding measure_operation_def c by (simp add: assms(2) Let_def)
qed

lemma now_log_event [simp]: "now (log_event e w) = now w"
  by (simp add: log_event_def)

lemma now_sleep [simp]: "now (sleep env d w) = now w + d + lag env"
  by (simp add: sleep_def)

lemma now_extend_run:
  "now (extend_run env minimal_time passed w)
   = now w + (case minimal_time of
                None \<Rightarrow> 0
              | Some m \<Rightarrow> if m \<noteq> 0 \<and> m - passed > 0 then m - passed + lag env else 0)"
  by (simp add: extend_run_def truthy_def Let_def split: option.splits)

lemma getitem_make_results [simp]:
  "getitem (make_results a b r m al) ''start'' = Inr (PFloat a)"
  "getitem (make_results a b r m al) ''stop'' = Inr (PFloat b)"
  "getitem (make_results a b r m al) ''result'' = Inr r"
  "getitem (make_results a b r m al) ''metadata'' = Inr m"
  "getitem (make_results a b r m al) ''prometheus_alerts'' = Inr (PList al)"
  by (simp_all add: make_results_def)

text \<open>A fresh run that returns a record returns the one it built.\<close>

lemma measure_operation_returns:
  assumes miss: "\<not> (isfile w result_file \<and> access_R_OK w result_file)"
    and ret: "measure_operation env operation result_file minimal_time metadata measure_after w
              = (Inr record, w')"
  shows "\<exists>result w2.
           operation (log_event Operation_called (log_event Watcher_started w)) = (Inr result, w2)
           \<and> record = make_results (if measure_after then now w2 else now w)
                (now (extend_run env minimal_time
                        (now w2 - (if measure_after then now w2 else now w)) w2))
                result metadata (watched_alerts (polls env))"
proof (cases "operation (log_event Operation_called (log_event Watcher_started w))")
  case (Pair r w2)
  show ?thesis
  proof (cases r)
    case (Inl e)
    with Pair have "operation (log_event Operation_called (log_event Watcher_started w))
                    = (Inl e, w2)" by simp
    from measure_operation_raises[where operation = operation, OF miss this] ret
    show ?thesis by simp
  next
    case (Inr result)
    with Pair have op: "operation (log_event Operation_called (log_event Watcher_started w))
                        = (Inr result, w2)" by simp
    from ret show ?thesis
      unfolding measure_operation_miss[where operation = operation, OF miss op]
      by (auto simp: Let_def op split: prod.splits sum.splits)
  qed
qed

text \<open>
  Claim C2. When the result file is there and readable, \<^verbatim>\<open>measure_operation\<close> returns
  what \<^verbatim>\<open>json.load\<close> makes of the file and leaves the world as it was: nothing is added
  to the trace (no watcher started, no operation called, no request sent), no file is
  written, the cluster and the clock are untouched. Neither the operation nor any other
  argument matters, and a second call on the world the first one left returns the same.
\<close>

theorem cached_result_is_returned_without_effects:
  assumes "files w result_file = Some f" and "readable f"
  shows "measure_operation env operation result_file minimal_time metadata measure_after w
           = (json_load (content f), w)
         \<and> measure_operation env' operation' result_file minimal_time' metadata' measure_after'
             (snd (measure_operation env operation result_file minimal_time metadata
                     measure_after w))
           = measure_operation env operation result_file minimal_time metadata measure_after w"
  using assms by (simp add: measure_operation_hit)

theorem cached_result_is_returned_without_effects_witness:
  "files (world_with_file () ''mgr.json'' stored_file) ''mgr.json'' = Some stored_file
   \<and> readable stored_file
   \<and> measure_operation busy_env (ten_seconds busy_env) ''mgr.json'' (Some 30) PNone False
        (world_with_file () ''mgr.json'' stored_file)
      = (Inr stored_record, world_with_file () ''mgr.json'' stored_file)"
proof -
  have f: "files (world_with_file () ''mgr.json'' stored_file) ''mgr.json'' = Some stored_file"
    by (simp add: world_with_file_def)
  have r: "readable stored_file"
    by (simp add: stored_file_def)
  from cached_result_is_returned_without_effects[OF f r, of busy_env "ten_seconds busy_env"
      "Some 30" PNone False] f r
  show ?thesis by (simp add: stored_file_def)
qed


lemma watched_busy_alerts: "watched_alerts two_polls = busy_alerts"
  by (simp add: watched_two_polls busy_alerts_def)

lemma requests_two_polls: "snd (snd (prometheus_log two_polls [] 0)) = 2"
  by (simp add: two_polls_def alert_def)

lemma fresh_world_miss: "\<not> (isfile (fresh_world c) p \<and> access_R_OK (fresh_world c) p)"
  by (simp add: fresh_world_def isfile_def)

lemma json_serializable_busy_alerts: "json_serializable (PList busy_alerts)"
  by (simp add: busy_alerts_def alert_def)

lemma save_results_fresh:
  "files w p = None \<Longrightarrow> json_serializable r \<Longrightarrow>
   save_results p r w
   = (Inr (), w\<lparr>files := (files w)(p \<mapsto> \<lparr>readable = True, writable = True,
                                           content = Json_text r\<rparr>)\<rparr>)"
  by (simp add: save_results_def open_w_def json_dump_def set_content_def)

lemma busy_run_after:
  "fst (measure_operation busy_env (ten_seconds busy_env) ''mgr.json'' (Some 30) PNone True
          (fresh_world ()))
   = Inr (make_results (2021 / 2) 1041 (PStr ''done'') PNone busy_alerts)"
proof -
  have op: "ten_seconds busy_env (log_event Operation_called (log_event Watcher_started
              (fresh_world ())))
            = (Inr (PStr ''done''), sleep busy_env 10 (log_event Operation_called
                 (log_event Watcher_started (fresh_world ()))))"
    by (simp add: ten_seconds_def)
  have ser: "json_serializable (make_results (2021 / 2) 1041 (PStr ''done'') PNone busy_alerts)"
    using json_serializable_busy_alerts by (simp add: make_results_def)
  show ?thesis
    unfolding measure_operation_miss[where operation = "ten_seconds busy_env",
        OF fresh_world_miss op]
    using ser
    by (simp add: Let_def now_extend_run busy_env_def watched_busy_alerts
        save_results_fresh extend_run_def truthy_def sleep_def log_event_def fresh_world_def)
qed




text \<open>
  Claim C4. In a fresh measurement, the start is the clock at the call of the operation
  when \<open>measure_after\<close> is false and the clock at its return when it is true; the stop
  is the clock at the return of the operation plus the wait of the minimal-time
  extension, which is computed after the operation in both modes. For an operation that
  takes \<open>D\<close>, the start with \<open>measure_after\<close> is \<open>D\<close> later than without.
\<close>

theorem start_and_stop_capture:
  assumes miss: "\<not> (isfile w result_file \<and> access_R_OK w result_file)"
    and op: "operation (log_event Operation_called (log_event Watcher_started w))
             = (Inr result, w2)"
    and ret: "measure_operation env operation result_file minimal_time metadata measure_after w
              = (Inr record, w')"
  shows "now (log_event Operation_called (log_event Watcher_started w)) = now w
         \<and> getitem record ''start'' = Inr (PFloat (if measure_after then now w2 else now w))
         \<and> getitem record ''stop''
             = Inr (PFloat (now w2 +
                 (case minimal_time of
                    None \<Rightarrow> 0
                  | Some m \<Rightarrow>
                      if m \<noteq> 0 \<and> m - (now w2 - (if measure_after then now w2 else now w)) > 0
                      then m - (now w2 - (if measure_after then now w2 else now w)) + lag env
                      else 0)))
         \<and> (\<forall>D. now w2 = now w + D \<longrightarrow>
               getitem record ''start'' = Inr (PFloat (now w + (if measure_after then D else 0))))"
proof -
  from measure_operation_returns[OF miss ret] op
  have rec: "record = make_results (if measure_after then now w2 else now w)
                (now (extend_run env minimal_time
                        (now w2 - (if measure_after then now w2 else now w)) w2))
                result metadata (watched_alerts (polls env))"
    by auto
  show ?thesis
    by (simp add: rec now_extend_run)
qed

theorem start_and_stop_capture_witness:
  "\<not> (isfile (fresh_world ()) ''mgr.json'' \<and> access_R_OK (fresh_world ()) ''mgr.json'')
   \<and> ten_seconds busy_env (log_event Operation_called (log_event Watcher_started
        (fresh_world ())))
      = (Inr (PStr ''done''), sleep busy_env 10 (log_event Operation_called
           (log_event Watcher_started (fresh_world ()))))
   \<and> now (sleep busy_env 10 (log_event Operation_called
        (log_event Watcher_started (fresh_world ())))) = now (fresh_world ()) + 21 / 2
   \<and> fst (measure_operation busy_env (ten_seconds busy_env) ''mgr.json'' (Some 30) PNone True
            (fresh_world ()))
       = Inr (make_results (2021 / 2) 1041 (PStr ''done'') PNone busy_alerts)
   \<and> getitem (make_results (2021 / 2) 1041 (PStr ''done'') PNone busy_alerts) ''start''
       = Inr (PFloat (now (fresh_world ()) + 21 / 2))
   \<and> getitem (make_results (2021 / 2) 1041 (PStr ''done'') PNone busy_alerts) ''stop''
       = Inr (PFloat (now (fresh_world ()) + 21 / 2 + (30 + 1 / 2)))"
proof -
  let ?w = "fresh_world ()"
  let ?w2 = "sleep busy_env 10 (log_event Operation_called (log_event Watcher_started ?w))"
  let ?run = "measure_operation busy_env (ten_seconds busy_env) ''mgr.json'' (Some 30) PNone
                True ?w"
  let ?rcd = "make_results (2021 / 2) 1041 (PStr ''done'') PNone busy_alerts"
  have op: "ten_seconds busy_env (log_event Operation_called (log_event Watcher_started ?w))
            = (Inr (PStr ''done''), ?w2)"
    by (simp add: ten_seconds_def)
  have ret: "?run = (Inr ?rcd, snd ?run)"
    using busy_run_after by (simp add: prod_eq_iff)
  have D: "now ?w2 = now ?w + 21 / 2"
    by (simp add: busy_env_def)
  from start_and_stop_capture[where operation = "ten_seconds busy_env",
      OF fresh_world_miss op ret]
  have "getitem ?rcd ''start'' = Inr (PFloat (now ?w + 21 / 2))"
    and "getitem ?rcd ''stop'' = Inr (PFloat (now ?w + 21 / 2 + (30 + 1 / 2)))"
    using D by (simp_all add: busy_env_def)
  with fresh_world_miss op D busy_run_after show ?thesis by (intro conjI)
qed

section \<open>Saving the record\<close>

lemma files_log_event [simp]: "files (log_event e w) = files w"
  by (simp add: log_event_def)

lemma files_sleep [simp]: "files (sleep env d w) = files w"
  by (simp add: sleep_def)

lemma files_extend_run [simp]: "files (extend_run env minimal_time passed w) = files w"
  by (simp add: extend_run_def Let_def)

lemma trace_log_event [simp]: "trace (log_event e w) = trace w @ [e]"
  by (simp add: log_event_def)

lemma save_results_writable:
  assumes "files w p = Some f" "writable f"
  shows "save_results p r w
         = (if json_serializable r then Inr () else Inl TypeError,
            w\<lparr>files := (files w)(p \<mapsto>
                 f\<lparr>content := (if json_serializable r then Json_text r else Partial_text r)\<rparr>)\<rparr>)"
  using assms by (simp add: save_results_def open_w_def json_dump_def set_content_def)

lemma save_results_missing:
  assumes "files w p = None"
  shows "save_results p r w
         = (if json_serializable r then Inr () else Inl TypeError,
            w\<lparr>files := (files w)(p \<mapsto>
                 \<lparr>readable = True, writable = True,
                  content = (if json_serializable r then Json_text r else Partial_text r)\<rparr>)\<rparr>)"
  using assms by (simp add: save_results_def open_w_def json_dump_def set_content_def)

lemma save_results_locked:
  assumes "files w p = Some f" "\<not> writable f"
  shows "save_results p r w = (Inl PermissionError, w)"
  using assms by (simp add: save_results_def open_w_def)

lemma slot_text_save_stages:
  assumes "can_write w p"
  shows "map (\<lambda>w'. slot_text w' p) (save_stages p r w)
         = [slot_text w p, Some (Other_text []),
            Some (if json_serializable r then Json_text r else Partial_text r)]"
  using assms
  by (auto simp: can_write_def save_stages_def open_w_def json_dump_def set_content_def
      slot_text_def split: option.splits)

text \<open>
  Claim C9, as the code has it. The save is not atomic. \<^verbatim>\<open>open(result_file, 'w')\<close>
  works on the slot itself: when the file can be opened for writing, a reader first finds
  the old slot, then an empty file, then what \<^verbatim>\<open>json.dump\<close> left: the record, or,
  when the record holds a value that cannot be encoded, the chunks written before the
  \<^verbatim>\<open>TypeError\<close>. Neither the empty nor the cut-off text can be loaded.
\<close>

theorem save_truncates_in_place_then_dumps:
  assumes "can_write w result_file"
  shows "map (\<lambda>w'. slot_text w' result_file) (save_stages result_file results w)
           = [slot_text w result_file, Some (Other_text []),
              Some (if json_serializable results then Json_text results
                    else Partial_text results)]
         \<and> save_results result_file results w
           = (if json_serializable results then Inr () else Inl TypeError,
              last (save_stages result_file results w))
         \<and> json_load (Other_text []) = Inl JSONDecodeError
         \<and> json_load (Partial_text results) = Inl JSONDecodeError"
proof -
  have "save_results result_file results w
        = (if json_serializable results then Inr () else Inl TypeError,
           last (save_stages result_file results w))"
    using assms
    by (auto simp: can_write_def save_stages_def save_results_def open_w_def json_dump_def
        split: option.splits)
  with slot_text_save_stages[OF assms] show ?thesis by simp
qed

theorem save_truncates_in_place_then_dumps_witness:
  "can_write (world_with_file () ''mgr.json'' stored_file) ''mgr.json''
   \<and> map (\<lambda>w'. slot_text w' ''mgr.json'')
        (save_stages ''mgr.json'' unencodable_record
           (world_with_file () ''mgr.json'' stored_file))
     = [Some (Json_text stored_record), Some (Other_text []),
        Some (Partial_text unencodable_record)]
   \<and> fst (save_results ''mgr.json'' unencodable_record
             (world_with_file () ''mgr.json'' stored_file)) = Inl TypeError"
proof -
  have cw: "can_write (world_with_file () ''mgr.json'' stored_file) ''mgr.json''"
    by (simp add: can_write_def world_with_file_def stored_file_def)
  have ns: "\<not> json_serializable unencodable_record"
    by (simp add: unencodable_record_def make_results_def)
  have old: "slot_text (world_with_file () ''mgr.json'' stored_file) ''mgr.json''
             = Some (Json_text stored_record)"
    by (simp add: slot_text_def world_with_file_def stored_file_def)
  from save_truncates_in_place_then_dumps[OF cw, of unencodable_record] cw ns old
  show ?thesis by simp
qed

text \<open>
  Claim C9 as stated fails: while a good record is saved over an old one, the slot is
  empty for a time, and a record that cannot be encoded leaves a cut-off slot behind.
\<close>

theorem save_is_not_atomic:
  "\<not> atomic_save ''mgr.json'' (make_results 3 4 (PStr ''done'') PNone [])
       (world_with_file () ''mgr.json'' stored_file)
   \<and> slot_text (snd (open_w ''mgr.json'' (world_with_file () ''mgr.json'' stored_file)))
        ''mgr.json'' = Some (Other_text [])
   \<and> save_results ''mgr.json'' unencodable_record (fresh_world ())
     = (Inl TypeError,
        (fresh_world ())\<lparr>files := [''mgr.json'' \<mapsto>
           \<lparr>readable = True, writable = True, content = Partial_text unencodable_record\<rparr>]\<rparr>)
   \<and> \<not> atomic_save ''mgr.json'' unencodable_record (fresh_world ())"
  by (simp add: atomic_save_def save_stages_def save_results_def open_w_def json_dump_def
      set_content_def slot_text_def world_with_file_def fresh_world_def stored_file_def
      stored_record_def unencodable_record_def make_results_def)


section \<open>A failed request to the alerting API\<close>

lemma failing_polls:
  "prometheus_log (polls failing_env) [] 0
   = (Died (AssertionError Request_failed), [alert ''CephMgrIsAbsent'' ''pending''], 2)"
  by (simp add: failing_env_def)

text \<open>
  Claim C1 against the code. The second request fails; the watcher thread dies of its
  assertion after two requests, with one alert collected. The main thread never learns of
  it: the measurement returns a record with that one alert and stores it in the result
  file.
\<close>

theorem failed_poll_is_swallowed_and_record_persisted:
  "prometheus_log (polls failing_env) [] 0
     = (Died (AssertionError Request_failed), [alert ''CephMgrIsAbsent'' ''pending''], 2)
   \<and> fst (measure_operation failing_env (ten_seconds failing_env) ''mgr.json'' None PNone False
            (fresh_world ()))
     = Inr (make_results 1000 1010 (PStr ''done'') PNone [alert ''CephMgrIsAbsent'' ''pending''])
   \<and> slot_text (snd (measure_operation failing_env (ten_seconds failing_env) ''mgr.json'' None
                       PNone False (fresh_world ()))) ''mgr.json''
     = Some (Json_text (make_results 1000 1010 (PStr ''done'') PNone
                          [alert ''CephMgrIsAbsent'' ''pending'']))
   \<and> trace (snd (measure_operation failing_env (ten_seconds failing_env) ''mgr.json'' None
                   PNone False (fresh_world ())))
     = [Watcher_started, Operation_called, Slept 10, Watcher_joined 2]"
proof -
  let ?w = "fresh_world () :: unit world"
  let ?w2 = "sleep failing_env 10 (log_event Operation_called (log_event Watcher_started ?w))"
  let ?r = "make_results 1000 1010 (PStr ''done'') PNone [alert ''CephMgrIsAbsent'' ''pending'']"
  have miss: "\<not> (isfile ?w ''mgr.json'' \<and> access_R_OK ?w ''mgr.json'')"
    by (simp add: fresh_world_def isfile_def)
  have op: "ten_seconds failing_env (log_event Operation_called (log_event Watcher_started ?w))
            = (Inr (PStr ''done''), ?w2)"
    by (simp add: ten_seconds_def)
  have clock: "now ?w2 = 1010" "now ?w = 1000"
    by (simp_all add: sleep_def log_event_def fresh_world_def failing_env_def)
  have ser: "json_serializable ?r"
    by (simp add: make_results_def alert_def)
  have lag0: "lag failing_env = 0"
    by (simp add: failing_env_def)
  have nofile: "files (log_event (Watcher_joined 2) ?w2) ''mgr.json'' = None"
    by (simp add: sleep_def log_event_def fresh_world_def)
  have run: "measure_operation failing_env (ten_seconds failing_env) ''mgr.json'' None PNone
               False ?w
             = (Inr ?r, (log_event (Watcher_joined 2) ?w2)\<lparr>files :=
                  (files (log_event (Watcher_joined 2) ?w2))(''mgr.json'' \<mapsto>
                     \<lparr>readable = True, writable = True, content = Json_text ?r\<rparr>)\<rparr>)"
    unfolding measure_operation_miss[where operation = "ten_seconds failing_env", OF miss op]
    by (simp add: Let_def clock lag0 extend_run_def truthy_def watched_alerts_def failing_polls
        save_results_missing[OF nofile] ser)
  show ?thesis
    unfolding run
    by (simp add: failing_polls slot_text_def sleep_def log_event_def fresh_world_def)
qed

section \<open>An unreadable result file\<close>

text \<open>
  Claim C10, as the code has it. A result file that is there but not readable is a cache
  miss: the operation is called and the watcher joined. After that the file is opened for
  writing. When it is writable, it is overwritten with what \<^verbatim>\<open>json.dump\<close> makes of the
  new record; when it is not, \<^verbatim>\<open>PermissionError\<close> is raised after the measurement and
  the file keeps its content. (The operation is taken to leave the file alone.)
\<close>

theorem unreadable_slot_is_measured_again:
  assumes slot: "files w result_file = Some f" and unreadable: "\<not> readable f"
    and op: "operation (log_event Operation_called (log_event Watcher_started w))
             = (Inr result, w2)"
    and kept: "files w2 result_file = Some f"
  shows "let start_time = (if measure_after then now w2 else now w);
             w3 = extend_run env minimal_time (now w2 - start_time) w2;
             results = make_results start_time (now w3) result metadata
                         (watched_alerts (polls env));
             run = measure_operation env operation result_file minimal_time metadata
                     measure_after w
         in (\<exists>requests. trace (snd run) = trace w3 @ [Watcher_joined requests])
            \<and> (if writable f
                then fst run = (if json_serializable results then Inr results
                                else Inl TypeError)
                     \<and> slot_text (snd run) result_file
                         = Some (if json_serializable results then Json_text results
                                 else Partial_text results)
                else fst run = Inl PermissionError
                     \<and> slot_text (snd run) result_file = Some (content f))"
proof -
  have miss: "\<not> (isfile w result_file \<and> access_R_OK w result_file)"
    using slot unreadable by (simp add: access_R_OK_def)
  let ?start = "if measure_after then now w2 else now w"
  let ?w3 = "extend_run env minimal_time (now w2 - ?start) w2"
  let ?n = "snd (snd (prometheus_log (polls env) [] 0))"
  let ?w4 = "log_event (Watcher_joined ?n) ?w3"
  have f4: "files ?w4 result_file = Some f"
    using kept by simp
  show ?thesis
  proof (cases "writable f")
    case True
    show ?thesis
      unfolding measure_operation_miss[where operation = operation, OF miss op]
      using True
      by (simp add: Let_def save_results_writable[OF f4 True] slot_text_def)
  next
    case False
    show ?thesis
      unfolding measure_operation_miss[where operation = operation, OF miss op]
      using False kept
      by (simp add: Let_def save_results_locked[OF f4 False] slot_text_def)
  qed
qed

theorem unreadable_slot_is_measured_again_witness:
  "files (world_with_file () ''mgr.json'' write_only_file) ''mgr.json'' = Some write_only_file
   \<and> \<not> readable write_only_file
   \<and> writable write_only_file
   \<and> ten_seconds busy_env (log_event Operation_called (log_event Watcher_started
        (world_with_file () ''mgr.json'' write_only_file)))
      = (Inr (PStr ''done''), sleep busy_env 10 (log_event Operation_called
           (log_event Watcher_started (world_with_file () ''mgr.json'' write_only_file))))
   \<and> files (sleep busy_env 10 (log_event Operation_called
        (log_event Watcher_started (world_with_file () ''mgr.json'' write_only_file))))
        ''mgr.json'' = Some write_only_file
   \<and> fst (measure_operation busy_env (ten_seconds busy_env) ''mgr.json'' None PNone False
            (world_with_file () ''mgr.json'' write_only_file))
      = Inr (make_results 1000 (2021 / 2) (PStr ''done'') PNone busy_alerts)
   \<and> slot_text (snd (measure_operation busy_env (ten_seconds busy_env) ''mgr.json'' None PNone
                       False (world_with_file () ''mgr.json'' write_only_file))) ''mgr.json''
      = Some (Json_text (make_results 1000 (2021 / 2) (PStr ''done'') PNone busy_alerts))"
proof -
  let ?w = "world_with_file () ''mgr.json'' write_only_file"
  let ?w2 = "sleep busy_env 10 (log_event Operation_called (log_event Watcher_started ?w))"
  have slot: "files ?w ''mgr.json'' = Some write_only_file"
    by (simp add: world_with_file_def)
  have unreadable: "\<not> readable write_only_file" and w: "writable write_only_file"
    by (simp_all add: write_only_file_def)
  have op: "ten_seconds busy_env (log_event Operation_called (log_event Watcher_started ?w))
            = (Inr (PStr ''done''), ?w2)"
    by (simp add: ten_seconds_def)
  have kept: "files ?w2 ''mgr.json'' = Some write_only_file"
    by (simp add: world_with_file_def)
  have clock: "lag busy_env = 1 / 2" "now ?w = 1000"
    by (simp_all add: world_with_file_def busy_env_def)
  have ser: "json_serializable (make_results 1000 (2021 / 2) (PStr ''done'') PNone busy_alerts)"
    using json_serializable_busy_alerts by (simp add: make_results_def)
  have al: "watched_alerts (polls busy_env) = busy_alerts"
    using watched_busy_alerts by (simp add: busy_env_def)
  from unreadable_slot_is_measured_again[where operation = "ten_seconds busy_env"
      and env = busy_env and minimal_time = None and metadata = PNone and measure_after = False,
      OF slot unreadable op kept]
  have "fst (measure_operation busy_env (ten_seconds busy_env) ''mgr.json'' None PNone False ?w)
        = Inr (make_results 1000 (2021 / 2) (PStr ''done'') PNone busy_alerts)"
    and "slot_text (snd (measure_operation busy_env (ten_seconds busy_env) ''mgr.json'' None
                          PNone False ?w)) ''mgr.json''
         = Some (Json_text (make_results 1000 (2021 / 2) (PStr ''done'') PNone busy_alerts))"
    using w ser by (simp_all add: Let_def clock al extend_run_def truthy_def)
  with slot unreadable w op kept show ?thesis by (intro conjI)
qed

text \<open>
  Claim C10 as stated fails on a file that is neither readable nor writable: the
  measurement runs, then ends in \<^verbatim>\<open>PermissionError\<close>, and the slot is not replaced.
\<close>

theorem locked_slot_is_measured_and_not_replaced:
  "isfile (world_with_file () ''mgr.json'' locked_file) ''mgr.json''
   \<and> \<not> access_R_OK (world_with_file () ''mgr.json'' locked_file) ''mgr.json''
   \<and> fst (measure_operation busy_env (ten_seconds busy_env) ''mgr.json'' None PNone False
            (world_with_file () ''mgr.json'' locked_file)) = Inl PermissionError
   \<and> slot_text (snd (measure_operation busy_env (ten_seconds busy_env) ''mgr.json'' None PNone
                       False (world_with_file () ''mgr.json'' locked_file))) ''mgr.json''
      = Some (Json_text stored_record)
   \<and> trace (snd (measure_operation busy_env (ten_seconds busy_env) ''mgr.json'' None PNone
                   False (world_with_file () ''mgr.json'' locked_file)))
      = [Watcher_started, Operation_called, Slept 10, Watcher_joined 2]"
proof -
  let ?w = "world_with_file () ''mgr.json'' locked_file"
  let ?w2 = "sleep busy_env 10 (log_event Operation_called (log_event Watcher_started ?w))"
  have slot: "files ?w ''mgr.json'' = Some locked_file"
    by (simp add: world_with_file_def)
  have locked: "\<not> readable locked_file" "\<not> writable locked_file"
    "content locked_file = Json_text stored_record"
    by (simp_all add: locked_file_def)
  have miss: "\<not> (isfile ?w ''mgr.json'' \<and> access_R_OK ?w ''mgr.json'')"
    using slot locked by (simp add: access_R_OK_def)
  have op: "ten_seconds busy_env (log_event Operation_called (log_event Watcher_started ?w))
            = (Inr (PStr ''done''), ?w2)"
    by (simp add: ten_seconds_def)
  have f4: "files (log_event (Watcher_joined 2) ?w2) ''mgr.json'' = Some locked_file"
    by (simp add: world_with_file_def)
  have tr: "trace ?w2 = [Watcher_started, Operation_called, Slept 10]"
    by (simp add: sleep_def log_event_def world_with_file_def)
  have pl: "polls busy_env = two_polls"
    by (simp add: busy_env_def)
  have run: "measure_operation busy_env (ten_seconds busy_env) ''mgr.json'' None PNone False ?w
             = (Inl PermissionError, log_event (Watcher_joined 2) ?w2)"
    unfolding measure_operation_miss[where operation = "ten_seconds busy_env", OF miss op]
    by (simp add: Let_def extend_run_def truthy_def pl requests_two_polls
        save_results_locked[OF f4 locked(2)])
  show ?thesis
    unfolding run using slot locked tr
    by (simp add: isfile_def access_R_OK_def slot_text_def)
qed

section \<open>The fixtures\<close>

lemma measure_operation_undecodable:
  assumes "undecodable_slot w result_file"
  shows "measure_operation env operation result_file minimal_time metadata measure_after w
         = (Inl JSONDecodeError, w)"
proof -
  from assms obtain f where f: "files w result_file = Some f" "readable f"
    "json_load (content f) = Inl JSONDecodeError"
    by (auto simp: undecodable_slot_def split: option.splits)
  from measure_operation_hit[OF f(1,2)] f(3) show ?thesis by simp
qed

text \<open>
  Claim C8, as the code has it. When the result file is there and readable and its text
  is not JSON, \<^verbatim>\<open>json.load\<close> raises, \<^verbatim>\<open>measure_operation\<close> lets the error through,
  and each of the three fixtures ends with an error in the world it started in: no command
  was run, the cluster is as it was. The code checks nothing beyond that; JSON of another
  shape than a record is returned as it is.
\<close>

theorem undecodable_slot_aborts_before_any_command:
  "(undecodable_slot w result_file \<longrightarrow>
      measure_operation env operation result_file minimal_time metadata measure_after w
      = (Inl JSONDecodeError, w))
   \<and> (undecodable_slot w (path_join measurement_dir ''measure_stop_ceph_mgr.json'') \<longrightarrow>
        (\<exists>e. measure_stop_ceph_mgr oc env measurement_dir w = (Inl e, w)))
   \<and> (undecodable_slot w (path_join measurement_dir ''measure_stop_ceph_mon.json'') \<longrightarrow>
        (\<exists>e. measure_stop_ceph_mon oc env measurement_dir w = (Inl e, w)))
   \<and> (undecodable_slot w (path_join measurement_dir ''measure_stop_ceph_osd.json'') \<longrightarrow>
        (\<exists>e. measure_stop_ceph_osd oc env measurement_dir w = (Inl e, w)))"
proof (intro conjI impI)
  assume "undecodable_slot w result_file"
  then show "measure_operation env operation result_file minimal_time metadata measure_after w
             = (Inl JSONDecodeError, w)"
    by (rule measure_operation_undecodable)
next
  assume "undecodable_slot w (path_join measurement_dir ''measure_stop_ceph_mgr.json'')"
  then show "\<exists>e. measure_stop_ceph_mgr oc env measurement_dir w = (Inl e, w)"
    by (simp add: measure_stop_ceph_mgr_def measure_operation_undecodable split: sum.splits)
next
  assume "undecodable_slot w (path_join measurement_dir ''measure_stop_ceph_mon.json'')"
  then show "\<exists>e. measure_stop_ceph_mon oc env measurement_dir w = (Inl e, w)"
    by (simp add: measure_stop_ceph_mon_def measure_operation_undecodable split: sum.splits)
next
  assume "undecodable_slot w (path_join measurement_dir ''measure_stop_ceph_osd.json'')"
  then show "\<exists>e. measure_stop_ceph_osd oc env measurement_dir w = (Inl e, w)"
    by (simp add: measure_stop_ceph_osd_def measure_operation_undecodable split: sum.splits)
qed

lemma path_results [simp]:
  "path_join ''results'' name = ''results/'' @ name"
  by (simp add: path_join_def)

lemma undecodable_corrupt: "undecodable_slot (world_with_file c p corrupt_file) p"
  by (simp add: undecodable_slot_def world_with_file_def corrupt_file_def)

theorem undecodable_slot_aborts_before_any_command_witness:
  "undecodable_slot (world_with_file one_mgr ''results/measure_stop_ceph_mgr.json'' corrupt_file)
     (path_join ''results'' ''measure_stop_ceph_mgr.json'')
   \<and> undecodable_slot (world_with_file four_mons ''results/measure_stop_ceph_mon.json''
        corrupt_file) (path_join ''results'' ''measure_stop_ceph_mon.json'')
   \<and> undecodable_slot (world_with_file one_mgr ''results/measure_stop_ceph_osd.json'' corrupt_file)
        (path_join ''results'' ''measure_stop_ceph_osd.json'')
   \<and> measure_operation quiet_env (stop_mgr small_cluster_client quiet_env ''rook-ceph-mgr-a'')
        ''results/measure_stop_ceph_mgr.json'' None PNone False
        (world_with_file one_mgr ''results/measure_stop_ceph_mgr.json'' corrupt_file)
      = (Inl JSONDecodeError,
         world_with_file one_mgr ''results/measure_stop_ceph_mgr.json'' corrupt_file)
   \<and> (\<exists>e. measure_stop_ceph_mgr small_cluster_client quiet_env ''results''
          (world_with_file one_mgr ''results/measure_stop_ceph_mgr.json'' corrupt_file)
        = (Inl e, world_with_file one_mgr ''results/measure_stop_ceph_mgr.json'' corrupt_file))
   \<and> (\<exists>e. measure_stop_ceph_mon small_cluster_client quiet_env ''results''
          (world_with_file four_mons ''results/measure_stop_ceph_mon.json'' corrupt_file)
        = (Inl e, world_with_file four_mons ''results/measure_stop_ceph_mon.json'' corrupt_file))
   \<and> (\<exists>e. measure_stop_ceph_osd small_cluster_client quiet_env ''results''
          (world_with_file one_mgr ''results/measure_stop_ceph_osd.json'' corrupt_file)
        = (Inl e, world_with_file one_mgr ''results/measure_stop_ceph_osd.json'' corrupt_file))"
proof -
  let ?mgr = "world_with_file one_mgr ''results/measure_stop_ceph_mgr.json'' corrupt_file"
  let ?mon = "world_with_file four_mons ''results/measure_stop_ceph_mon.json'' corrupt_file"
  let ?osd = "world_with_file one_mgr ''results/measure_stop_ceph_osd.json'' corrupt_file"
  have a: "undecodable_slot ?mgr (path_join ''results'' ''measure_stop_ceph_mgr.json'')"
    and b: "undecodable_slot ?mon (path_join ''results'' ''measure_stop_ceph_mon.json'')"
    and c: "undecodable_slot ?osd (path_join ''results'' ''measure_stop_ceph_osd.json'')"
    and d: "undecodable_slot ?mgr ''results/measure_stop_ceph_mgr.json''"
    using undecodable_corrupt by simp_all
  from undecodable_slot_aborts_before_any_command[of ?mgr "''results/measure_stop_ceph_mgr.json''"
      quiet_env "stop_mgr small_cluster_client quiet_env ''rook-ceph-mgr-a''" None PNone False
      "''results''" small_cluster_client] a d
  have m: "measure_operation quiet_env (stop_mgr small_cluster_client quiet_env ''rook-ceph-mgr-a'')
        ''results/measure_stop_ceph_mgr.json'' None PNone False ?mgr = (Inl JSONDecodeError, ?mgr)"
    and g: "\<exists>e. measure_stop_ceph_mgr small_cluster_client quiet_env ''results'' ?mgr
                = (Inl e, ?mgr)"
    by blast+
  from undecodable_slot_aborts_before_any_command[of ?mon "''results/measure_stop_ceph_mon.json''"
      quiet_env "stop_mgr small_cluster_client quiet_env ''rook-ceph-mgr-a''" None PNone False
      "''results''" small_cluster_client] b
  have n: "\<exists>e. measure_stop_ceph_mon small_cluster_client quiet_env ''results'' ?mon
                = (Inl e, ?mon)"
    by blast
  from undecodable_slot_aborts_before_any_command[of ?osd "''results/measure_stop_ceph_osd.json''"
      quiet_env "stop_mgr small_cluster_client quiet_env ''rook-ceph-mgr-a''" None PNone False
      "''results''" small_cluster_client] c
  have s: "\<exists>e. measure_stop_ceph_osd small_cluster_client quiet_env ''results'' ?osd
                = (Inl e, ?osd)"
    by blast
  from a b c m g n s show ?thesis by (intro conjI)
qed


lemmas fixture_defs =
  measure_stop_ceph_mgr_def measure_stop_ceph_mon_def first_name_def list_names_def
  list_items_def name_of_def first_item_def small_cluster_client_def resource_object_def
  MGR_APP_LABEL_def MON_APP_LABEL_def stop_mgr_def stop_mon_def exec_oc_cmd_def scale_cmd_def
  scaled_def mons_to_stop_def split_index_def check_old_mons_deleted_def

lemmas run_defs =
  measure_operation_def isfile_def access_R_OK_def json_load_file_def log_event_def sleep_def
  extend_run_def truthy_def save_results_def open_w_def json_dump_def set_content_def
  make_results_def

text \<open>
  Claim C8 as stated fails on a result file that holds the empty JSON object: it is no
  measurement record, yet it is loaded and returned without an error, and the manager
  fixture goes on to run its scale command.
\<close>

theorem json_of_another_shape_is_accepted:
  "\<not> is_measurement_record (PDict [])
   \<and> files (world_with_file one_mgr ''results/measure_stop_ceph_mgr.json'' empty_object_file)
        ''results/measure_stop_ceph_mgr.json''
     = Some \<lparr>readable = True, writable = True, content = Json_text (PDict [])\<rparr>
   \<and> measure_operation quiet_env (stop_mgr small_cluster_client quiet_env ''rook-ceph-mgr-a'')
        ''results/measure_stop_ceph_mgr.json'' None PNone False
        (world_with_file one_mgr ''results/measure_stop_ceph_mgr.json'' empty_object_file)
     = (Inr (PDict []),
        world_with_file one_mgr ''results/measure_stop_ceph_mgr.json'' empty_object_file)
   \<and> fst (measure_stop_ceph_mgr small_cluster_client quiet_env ''results''
            (world_with_file one_mgr ''results/measure_stop_ceph_mgr.json'' empty_object_file))
     = Inr (PDict [])
   \<and> commands (trace (snd (measure_stop_ceph_mgr small_cluster_client quiet_env ''results''
            (world_with_file one_mgr ''results/measure_stop_ceph_mgr.json'' empty_object_file))))
     = [''scale --replicas=1 deployment/rook-ceph-mgr-a'']"
  by (simp add: fixture_defs run_defs one_mgr_def quiet_env_def world_with_file_def
      empty_object_file_def Let_def has_field_def)

lemma stop_mgr_returns_the_resource:
  assumes "stop_mgr oc env mgr w = (Inr r, w')"
  shows "get_resource oc mgr (cluster w') = Inr r"
  using assms
  by (auto simp: stop_mgr_def Let_def split: prod.splits sum.splits)

text \<open>
  Claim C6 against the code. One manager deployment, no result file: the fixture scales
  the deployment to 0, waits 360 seconds and scales it back to 1. The result field of the
  record is what \<^verbatim>\<open>oc.get(mgr)\<close> returned, the resource object of the deployment, and
  not the name of the deployment.
\<close>

theorem stop_mgr_records_resource_object:
  "fst (measure_stop_ceph_mgr small_cluster_client quiet_env ''results'' (fresh_world one_mgr))
     = Inr (make_results 1000 1360
              (resource_object \<lparr>dep_name = ''rook-ceph-mgr-a'', dep_label = MGR_APP_LABEL,
                                 replicas = 0\<rparr>) PNone [])
   \<and> make_results 1000 1360
        (resource_object \<lparr>dep_name = ''rook-ceph-mgr-a'', dep_label = MGR_APP_LABEL,
                           replicas = 0\<rparr>) PNone []
     = PDict [(''start'', PFloat 1000), (''stop'', PFloat 1360),
              (''result'', PDict [(''metadata'', PDict [(''name'', PStr ''rook-ceph-mgr-a'')]),
                                  (''spec'', PDict [(''replicas'', PInt 0)])]),
              (''metadata'', PNone), (''prometheus_alerts'', PList [])]
   \<and> getitem (make_results 1000 1360
        (resource_object \<lparr>dep_name = ''rook-ceph-mgr-a'', dep_label = MGR_APP_LABEL,
                           replicas = 0\<rparr>) PNone []) ''result''
     \<noteq> Inr (PStr ''rook-ceph-mgr-a'')
   \<and> trace (snd (measure_stop_ceph_mgr small_cluster_client quiet_env ''results''
                   (fresh_world one_mgr)))
     = [Watcher_started, Operation_called, Exec ''scale --replicas=0 deployment/rook-ceph-mgr-a'',
        Slept 360, Watcher_joined 0, Exec ''scale --replicas=1 deployment/rook-ceph-mgr-a'']"
  by (simp add: fixture_defs run_defs one_mgr_def quiet_env_def fresh_world_def Let_def)


lemma commands_append: "commands (xs @ ys) = commands xs @ commands ys"
  by (induction xs rule: commands.induct) simp_all

lemma commands_map_Exec: "commands (map (\<lambda>m. Exec (f m)) ms) = map f ms"
  by (induction ms) simp_all

lemma exec_oc_cmd_succeeds:
  assumes "exec_succeeds oc"
  shows "\<exists>c'. exec_oc_cmd oc cmd w = (Inr (), (log_event (Exec cmd) w)\<lparr>cluster := c'\<rparr>)"
proof -
  from assms obtain c' where "exec_cmd oc cmd (cluster (log_event (Exec cmd) w)) = Inr c'"
    unfolding exec_succeeds_def by blast
  then have "exec_oc_cmd oc cmd w = (Inr (), (log_event (Exec cmd) w)\<lparr>cluster := c'\<rparr>)"
    by (simp add: exec_oc_cmd_def Let_def)
  then show ?thesis by (rule exI)
qed

lemma scale_each_succeeds:
  assumes "exec_succeeds oc"
  shows "\<exists>w'. scale_each oc r names w = (Inr (), w')
              \<and> trace w' = trace w @ map (\<lambda>m. Exec (scale_cmd r m)) names
              \<and> now w' = now w \<and> files w' = files w"
proof (induction names arbitrary: w)
  case Nil
  show ?case by simp
next
  case (Cons m ms)
  from exec_oc_cmd_succeeds[OF assms] obtain c' where
    e: "exec_oc_cmd oc (scale_cmd r m) w
        = (Inr (), (log_event (Exec (scale_cmd r m)) w)\<lparr>cluster := c'\<rparr>)"
    by blast
  let ?w1 = "(log_event (Exec (scale_cmd r m)) w)\<lparr>cluster := c'\<rparr>"
  from Cons.IH[of ?w1] obtain w' where
    "scale_each oc r ms ?w1 = (Inr (), w')"
    "trace w' = trace ?w1 @ map (\<lambda>m. Exec (scale_cmd r m)) ms"
    "now w' = now ?w1" "files w' = files ?w1"
    by blast
  then show ?case
    by (simp add: e log_event_def)
qed

lemma in_alert_stream:
  "a \<in> set (alert_stream rs) \<Longrightarrow> \<exists>r \<in> set rs. a \<in> set (resp_alerts r)"
  by (auto simp: alert_stream_def dest: set_takeWhileD)

lemma json_serializable_watched:
  assumes "alerts_are_json env"
  shows "json_serializable (PList (watched_alerts (polls env)))"
proof -
  have "json_serializable a" if "a \<in> set (watched_alerts (polls env))" for a
  proof -
    from that have "a \<in> set (alert_stream (polls env))"
      using set_first_seen by (auto simp: watched_alerts_first_seen)
    from in_alert_stream[OF this]
    obtain r where "r \<in> set (polls env)" "a \<in> set (resp_alerts r)"
      by (elim bexE)
    with assms show ?thesis
      by (auto simp: alerts_are_json_def list_all_iff)
  qed
  then show ?thesis by (simp add: list_all_iff)
qed

lemma save_results_can_write:
  assumes "can_write w p" "json_serializable r"
  shows "\<exists>w'. save_results p r w = (Inr (), w') \<and> trace w' = trace w
              \<and> cluster w' = cluster w \<and> now w' = now w"
  using assms
  by (auto simp: can_write_def save_results_def open_w_def json_dump_def set_content_def
      split: option.splits)

text \<open>
  Claim C7, as the code has it. With more than three monitor deployments listed, no
  readable result file (one that can be written) and a client whose commands succeed, the
  measurement runs \<open>stop_mon\<close>: exactly the deployments after index \<open>N div 2\<close> of the
  listing, \<open>N - N div 2\<close> of them, are scaled to 0, in order, before a wait of 720
  seconds. After the measurement the fixture lists the monitors again: when none of the
  stopped names is listed it returns the record and runs no further command; when one
  still is, it scales every stopped deployment to 1 and fails with the assertion.
\<close>

theorem fresh_mon_run_stops_the_tail_and_checks_replacement:
  assumes listing: "list_names oc MON_APP_LABEL (cluster w) = Inr mons"
    and many: "length mons > 3"
    and miss: "\<not> (isfile w (path_join measurement_dir ''measure_stop_ceph_mon.json'')
                  \<and> access_R_OK w (path_join measurement_dir ''measure_stop_ceph_mon.json''))"
    and writable: "can_write w (path_join measurement_dir ''measure_stop_ceph_mon.json'')"
    and exec: "exec_succeeds oc"
    and json: "alerts_are_json env"
  shows "\<exists>measured_op w1 requests.
           measure_operation env (stop_mon oc env (drop (length mons div 2) mons))
             (path_join measurement_dir ''measure_stop_ceph_mon.json'') None PNone False w
           = (Inr measured_op, w1)
           \<and> length (drop (length mons div 2) mons) = length mons - length mons div 2
           \<and> trace w1 = trace w @ [Watcher_started, Operation_called]
                @ map (\<lambda>m. Exec (scale_cmd ''0'' m)) (drop (length mons div 2) mons)
                @ [Slept 720, Watcher_joined requests]
           \<and> commands (trace w1)
               = commands (trace w) @ map (scale_cmd ''0'') (drop (length mons div 2) mons)
           \<and> getitem measured_op ''result''
               = Inr (PList (map PStr (drop (length mons div 2) mons)))
           \<and> measure_stop_ceph_mon oc env measurement_dir w
               = (case list_names oc MON_APP_LABEL (cluster w1) of
                    Inl e \<Rightarrow> (Inl e, w1)
                  | Inr mons' \<Rightarrow>
                      if list_all (\<lambda>m. m \<notin> set mons') (drop (length mons div 2) mons)
                      then (Inr measured_op, w1)
                      else (Inl (AssertionError
                                   (Monitors_not_replaced (drop (length mons div 2) mons))),
                            snd (scale_each oc ''1'' (drop (length mons div 2) mons) w1)))
           \<and> commands (trace (snd (scale_each oc ''1'' (drop (length mons div 2) mons) w1)))
               = commands (trace w1) @ map (scale_cmd ''1'') (drop (length mons div 2) mons)"
proof -
  let ?stopped = "drop (length mons div 2) mons"
  let ?tf = "path_join measurement_dir ''measure_stop_ceph_mon.json''"
  let ?w0 = "log_event Operation_called (log_event Watcher_started w)"
  have ts: "mons_to_stop mons = ?stopped"
    using many by (simp add: mons_to_stop_def split_index_def)
  from scale_each_succeeds[OF exec, of "''0''" ?stopped ?w0] obtain wa where
    down: "scale_each oc ''0'' ?stopped ?w0 = (Inr (), wa)"
    and tra: "trace wa = trace ?w0 @ map (\<lambda>m. Exec (scale_cmd ''0'' m)) ?stopped"
    and nowa: "now wa = now ?w0" and fa: "files wa = files ?w0"
    by blast
  let ?w2 = "sleep env 720 wa"
  have op: "stop_mon oc env ?stopped ?w0 = (Inr (PList (map PStr ?stopped)), ?w2)"
    by (simp add: stop_mon_def down)
  let ?n = "snd (snd (prometheus_log (polls env) [] 0))"
  let ?w4 = "log_event (Watcher_joined ?n) ?w2"
  let ?r = "make_results (now w) (now ?w2) (PList (map PStr ?stopped)) PNone
              (watched_alerts (polls env))"
  have ser: "json_serializable ?r"
    using json_serializable_watched[OF json]
    by (simp add: make_results_def list_all_iff)
  have cw: "can_write ?w4 ?tf"
    using writable fa by (simp add: can_write_def)
  from save_results_can_write[OF cw ser] obtain w1 where
    save: "save_results ?tf ?r ?w4 = (Inr (), w1)"
    and tr1: "trace w1 = trace ?w4" and c1: "cluster w1 = cluster ?w4" and n1: "now w1 = now ?w4"
    by blast
  have run: "measure_operation env (stop_mon oc env ?stopped) ?tf None PNone False w
             = (Inr ?r, w1)"
    unfolding measure_operation_miss[where operation = "stop_mon oc env ?stopped", OF miss op]
    by (simp add: Let_def extend_run_def truthy_def save del: now_sleep)
  have trace1: "trace w1 = trace w @ [Watcher_started, Operation_called]
                  @ map (\<lambda>m. Exec (scale_cmd ''0'' m)) ?stopped @ [Slept 720, Watcher_joined ?n]"
    by (simp add: tr1 sleep_def log_event_def tra)
  have cmds1: "commands (trace w1) = commands (trace w) @ map (scale_cmd ''0'') ?stopped"
    by (simp add: trace1 commands_append commands_map_Exec)
  from scale_each_succeeds[OF exec, of "''1''" ?stopped w1] obtain wb where
    up: "scale_each oc ''1'' ?stopped w1 = (Inr (), wb)"
    and trb: "trace wb = trace w1 @ map (\<lambda>m. Exec (scale_cmd ''1'' m)) ?stopped"
    by blast
  have cmds2: "commands (trace (snd (scale_each oc ''1'' ?stopped w1)))
               = commands (trace w1) @ map (scale_cmd ''1'') ?stopped"
    by (simp add: up trb commands_append commands_map_Exec)
  have fixture: "measure_stop_ceph_mon oc env measurement_dir w
        = (case list_names oc MON_APP_LABEL (cluster w1) of
             Inl e \<Rightarrow> (Inl e, w1)
           | Inr mons' \<Rightarrow>
               if list_all (\<lambda>m. m \<notin> set mons') ?stopped
               then (Inr ?r, w1)
               else (Inl (AssertionError (Monitors_not_replaced ?stopped)),
                     snd (scale_each oc ''1'' ?stopped w1)))"
    by (simp add: measure_stop_ceph_mon_def listing ts run up check_old_mons_deleted_def
        split: sum.splits)
  have len: "length ?stopped = length mons - length mons div 2"
    by simp
  have res: "getitem ?r ''result'' = Inr (PList (map PStr ?stopped))"
    by simp
  from run len trace1 cmds1 res fixture cmds2 show ?thesis
    by blast
qed


theorem fresh_mon_run_stops_the_tail_and_checks_replacement_witness:
  "list_names small_cluster_client MON_APP_LABEL (cluster (fresh_world four_mons))
     = Inr [''mon-a'', ''mon-b'', ''mon-c'', ''mon-d'']
   \<and> length [''mon-a'', ''mon-b'', ''mon-c'', ''mon-d''] > 3
   \<and> \<not> (isfile (fresh_world four_mons) (path_join ''results'' ''measure_stop_ceph_mon.json'')
          \<and> access_R_OK (fresh_world four_mons)
                (path_join ''results'' ''measure_stop_ceph_mon.json''))
   \<and> can_write (fresh_world four_mons) (path_join ''results'' ''measure_stop_ceph_mon.json'')
   \<and> exec_succeeds small_cluster_client
   \<and> alerts_are_json healing_env
   \<and> (\<exists>measured_op w1.
         measure_operation healing_env
           (stop_mon small_cluster_client healing_env [''mon-c'', ''mon-d''])
           ''results/measure_stop_ceph_mon.json'' None PNone False (fresh_world four_mons)
         = (Inr measured_op, w1)
         \<and> commands (trace w1)
             = [''scale --replicas=0 deployment/mon-c'', ''scale --replicas=0 deployment/mon-d'']
         \<and> getitem measured_op ''result'' = Inr (PList [PStr ''mon-c'', PStr ''mon-d'']))
   \<and> fst (measure_stop_ceph_mon small_cluster_client healing_env ''results''
            (fresh_world four_mons))
       = Inr (make_results 1000 1720 (PList [PStr ''mon-c'', PStr ''mon-d'']) PNone [])
   \<and> fst (measure_stop_ceph_mon small_cluster_client quiet_env ''results''
            (fresh_world four_mons))
       = Inl (AssertionError (Monitors_not_replaced [''mon-c'', ''mon-d'']))
   \<and> commands (trace (snd (measure_stop_ceph_mon small_cluster_client quiet_env ''results''
                             (fresh_world four_mons))))
       = [''scale --replicas=0 deployment/mon-c'', ''scale --replicas=0 deployment/mon-d'',
          ''scale --replicas=1 deployment/mon-c'', ''scale --replicas=1 deployment/mon-d'']"
proof -
  let ?w = "fresh_world four_mons"
  let ?mons = "[''mon-a'', ''mon-b'', ''mon-c'', ''mon-d'']"
  have listing: "list_names small_cluster_client MON_APP_LABEL (cluster ?w) = Inr ?mons"
    by (simp add: fixture_defs four_mons_def mon_def fresh_world_def)
  have many: "length ?mons > 3"
    by simp
  have miss: "\<not> (isfile ?w (path_join ''results'' ''measure_stop_ceph_mon.json'')
                  \<and> access_R_OK ?w (path_join ''results'' ''measure_stop_ceph_mon.json''))"
    by (rule fresh_world_miss)
  have writable: "can_write ?w (path_join ''results'' ''measure_stop_ceph_mon.json'')"
    by (simp add: can_write_def fresh_world_def)
  have exec: "exec_succeeds small_cluster_client"
    by (simp add: exec_succeeds_def small_cluster_client_def)
  have json: "alerts_are_json healing_env"
    by (simp add: alerts_are_json_def healing_env_def)
  from fresh_mon_run_stops_the_tail_and_checks_replacement[OF listing many miss writable exec
      json]
  obtain measured_op w1 where
    "measure_operation healing_env
       (stop_mon small_cluster_client healing_env (drop (length ?mons div 2) ?mons))
       (path_join ''results'' ''measure_stop_ceph_mon.json'') None PNone False ?w
     = (Inr measured_op, w1)"
    "commands (trace w1)
     = commands (trace ?w) @ map (scale_cmd ''0'') (drop (length ?mons div 2) ?mons)"
    "getitem measured_op ''result'' = Inr (PList (map PStr (drop (length ?mons div 2) ?mons)))"
    by blast
  then have part: "\<exists>measured_op w1.
         measure_operation healing_env
           (stop_mon small_cluster_client healing_env [''mon-c'', ''mon-d''])
           ''results/measure_stop_ceph_mon.json'' None PNone False ?w
         = (Inr measured_op, w1)
         \<and> commands (trace w1)
             = [''scale --replicas=0 deployment/mon-c'', ''scale --replicas=0 deployment/mon-d'']
         \<and> getitem measured_op ''result'' = Inr (PList [PStr ''mon-c'', PStr ''mon-d''])"
    by (simp add: scale_cmd_def fresh_world_def)
  have healed: "fst (measure_stop_ceph_mon small_cluster_client healing_env ''results'' ?w)
       = Inr (make_results 1000 1720 (PList [PStr ''mon-c'', PStr ''mon-d'']) PNone [])"
    by (simp add: fixture_defs run_defs four_mons_def mon_def healing_env_def fresh_world_def
        self_healing_def replaced_def Let_def)
  have stuck: "fst (measure_stop_ceph_mon small_cluster_client quiet_env ''results'' ?w)
       = Inl (AssertionError (Monitors_not_replaced [''mon-c'', ''mon-d'']))"
    "commands (trace (snd (measure_stop_ceph_mon small_cluster_client quiet_env ''results'' ?w)))
       = [''scale --replicas=0 deployment/mon-c'', ''scale --replicas=0 deployment/mon-d'',
          ''scale --replicas=1 deployment/mon-c'', ''scale --replicas=1 deployment/mon-d'']"
    by (simp_all add: fixture_defs run_defs four_mons_def mon_def quiet_env_def fresh_world_def
        Let_def)
  from listing many miss writable exec json part healed stuck show ?thesis
    by (intro conjI)
qed

text \<open>
  Claim C7 as stated fails when the result file of an earlier run is there: the record is
  read from the file, no monitor is scaled to 0, and the check of the listing still runs
  (and fails here, after scaling the deployments to 1).
\<close>

theorem cached_mon_run_stops_no_monitor:
  "list_names small_cluster_client MON_APP_LABEL four_mons
     = Inr [''mon-a'', ''mon-b'', ''mon-c'', ''mon-d'']
   \<and> fst (measure_stop_ceph_mon small_cluster_client healing_env ''results''
            (world_with_file four_mons ''results/measure_stop_ceph_mon.json'' stored_file))
     = Inl (AssertionError (Monitors_not_replaced [''mon-c'', ''mon-d'']))
   \<and> commands (trace (snd (measure_stop_ceph_mon small_cluster_client healing_env ''results''
            (world_with_file four_mons ''results/measure_stop_ceph_mon.json'' stored_file))))
     = [''scale --replicas=1 deployment/mon-c'', ''scale --replicas=1 deployment/mon-d'']"
  by (simp add: fixture_defs run_defs four_mons_def mon_def healing_env_def world_with_file_def
      stored_file_def Let_def)

end
